theory Spec2Isabelle
  imports Main
begin

section \<open>Values passed to step functions\<close>

text \<open>
  The Go code hands arguments to step functions as \<^verbatim>\<open>reflect.Value\<close>s. The values that
  occur are the scenario context, strings, ints, floats and raw byte slices. The type
  \<open>'f\<close> stands for Go's floating-point numbers, which are produced only by
  \<^verbatim>\<open>strconv.ParseFloat\<close>, a function of the standard library that the model takes as a
  parameter. \<open>VFloat32 x\<close> is the value \<^verbatim>\<open>float32(x)\<close>.
\<close>

datatype 'f gvalue =
    VContext
  | VString string
  | VInt int
  | VFloat32 'f
  | VFloat64 'f
  | VBytes string

section \<open>The parsed document (package messages)\<close>

text \<open>
  The types of the Gherkin library's \<^verbatim>\<open>messages\<close> package, with the fields the
  repository reads. A location is a line and a column; a nil pointer is \<open>None\<close>; a tag is
  its name; a table cell is its value. The records of package models below have fields of
  the same names, so the fields of these records are written with the record's name, as in
  \<open>msgs_Step.Text\<close>.
\<close>

record msgs_Step =
  Location :: "(nat \<times> nat) option"
  Keyword :: string
  KeywordType :: string
  Text :: string
  DocString :: "string option"
  DataTable :: "string list list option"

record TableRow =
  Cells :: "string list"

record Examples =
  TableHeader :: "TableRow option"
  TableBody :: "TableRow list"

record msgs_Scenario =
  Location :: "(nat \<times> nat) option"
  Tags :: "string list"
  Keyword :: string
  Name :: string
  Steps :: "msgs_Step list"
  Examples :: "Examples list"

record msgs_Background =
  Steps :: "msgs_Step list"

record FeatureChild =
  Background :: "msgs_Background option"
  Scenario :: "msgs_Scenario option"

record msgs_Feature =
  Tags :: "string list"
  Children :: "FeatureChild list"

section \<open>Package models: steps with an execution record\<close>

text \<open>
  \<^verbatim>\<open>type Result int\<close> with \<^verbatim>\<open>Passed Result = iota; Failed; Skipped\<close>:
  the constants are the integers 0, 1 and 2.
\<close>

type_synonym Result = int

definition Passed :: Result where
  "Passed = 0"

definition Failed :: Result where
  "Failed = 1"

definition Skipped :: Result where
  "Skipped = 2"

text \<open>
  A \<^verbatim>\<open>time.Time\<close> is an instant counted in clock ticks from the zero time, so the zero
  value of the struct is \<open>0\<close>. A nil \<^verbatim>\<open>error\<close> is \<open>None\<close>.
\<close>

record StepExecution =
  Result :: Result
  StartTime :: nat
  EndTime :: nat
  Err :: "string option"

definition zero_StepExecution :: StepExecution where
  "zero_StepExecution = \<lparr>Result = 0, StartTime = 0, EndTime = 0, Err = None\<rparr>"

text \<open>
  What \<^verbatim>\<open>Func.Call(args)\<close> can do: panic with a value, or return a slice of values.
  \<^verbatim>\<open>Step.Run\<close> looks at a returned value in three ways only: whether \<^verbatim>\<open>IsNil\<close> itself
  panics on it (a value of a kind that has no nil, the kind's name kept for the message),
  whether it is nil, and whether it is an \<^verbatim>\<open>error\<close>.
  A call also takes time: the second component of a \<open>Func\<close>'s result is the number of
  ticks the clock advanced while it ran.
\<close>

datatype retval =
    RetNil
  | RetError string
  | RetNonError
  | RetNotNillable string

datatype call_result =
    Panics string
  | Returns "retval list"

record 'f Step =
  Location :: "(nat \<times> nat) option"
  Keyword :: string
  KeywordType :: string
  Text :: string
  DocString :: "string option"
  DataTable :: "string list list option"
  Func :: "'f gvalue list \<Rightarrow> call_result \<times> nat"
  Args :: "'f gvalue list"
  Execution :: StepExecution

record 'f Scenario =
  Location :: "(nat \<times> nat) option"
  Tags :: "string list"
  Keyword :: string
  Name :: string
  Description :: string
  Background :: "msgs_Background option"
  Steps :: "'f Step list"

text \<open>The deferred function of \<^verbatim>\<open>Step.Run\<close>, for a recovered panic value \<open>r\<close>.\<close>

definition recovered :: "string \<Rightarrow> 'f Step \<Rightarrow> 'f Step" where
  "recovered r s = s\<lparr>Execution := (Execution s)\<lparr>Result := Failed, Err := Some r\<rparr>\<rparr>"

definition single_error_or_nil :: string where
  "single_error_or_nil = ''steps should only return a single error or nil''"

text \<open>
  \<^verbatim>\<open>func (s *Step) Run(ctx context.Context)\<close>. The first argument is the reading of the
  clock when \<^verbatim>\<open>StartTime\<close> is taken; the result is the step as the call leaves it and the
  clock afterwards. A panic (of the step function, of \<^verbatim>\<open>Call\<close>, of \<^verbatim>\<open>IsNil\<close> or one
  of the two explicit ones) leaves the function body at once and runs the deferred function.
\<close>

definition Run :: "nat \<Rightarrow> 'f Step \<Rightarrow> 'f Step \<times> nat" where
  "Run now s =
    (let args = VContext # Args s;
         s1 = s\<lparr>Execution := (Execution s)\<lparr>StartTime := now\<rparr>\<rparr>
     in case Func s args of
          (Panics r, d) \<Rightarrow> (recovered r s1, now + d)
        | (Returns ret, d) \<Rightarrow>
            (let s2 = s1\<lparr>Execution := (Execution s1)\<lparr>EndTime := now + d\<rparr>\<rparr>
             in (case ret of
                   [RetNotNillable k] \<Rightarrow>
                     recovered (''reflect: call of reflect.Value.IsNil on '' @ k @ '' Value'') s2
                 | [RetNil] \<Rightarrow> s2\<lparr>Execution := (Execution s2)\<lparr>Result := Passed\<rparr>\<rparr>
                 | [RetError e] \<Rightarrow>
                     s2\<lparr>Execution := (Execution s2)\<lparr>Result := Failed, Err := Some e\<rparr>\<rparr>
                 | [RetNonError] \<Rightarrow> recovered single_error_or_nil s2
                 | _ \<Rightarrow> recovered single_error_or_nil s2,
                 now + d)))"

text \<open>
  \<^verbatim>\<open>NewStep\<close> builds the step with a composite literal that names six fields; the other
  three get their zero values. A zero \<^verbatim>\<open>reflect.Value\<close> panics when called.
  The \<^verbatim>\<open>Scheme\<close> type is not among the sources: its method \<^verbatim>\<open>StepDefFor\<close> is a
  parameter that either fails or supplies the step definition, that is the fields
  \<^verbatim>\<open>Func\<close> and \<^verbatim>\<open>Args\<close> that the struct lists under "Step Definition".
\<close>

definition zero_Func :: "'f gvalue list \<Rightarrow> call_result \<times> nat" where
  "zero_Func args = (Panics ''reflect: call of reflect.Value.Call on zero Value'', 0)"

definition Step_literal :: "msgs_Step \<Rightarrow> 'f Step" where
  "Step_literal stepDoc =
    \<lparr>Step.Location = msgs_Step.Location stepDoc,
     Step.Keyword = msgs_Step.Keyword stepDoc,
     Step.KeywordType = msgs_Step.KeywordType stepDoc,
     Step.Text = msgs_Step.Text stepDoc,
     Step.DocString = msgs_Step.DocString stepDoc,
     Step.DataTable = msgs_Step.DataTable stepDoc,
     Func = zero_Func,
     Args = [],
     Execution = zero_StepExecution\<rparr>"

type_synonym 'f Scheme =
  "'f Step \<Rightarrow> string + ('f gvalue list \<Rightarrow> call_result \<times> nat) \<times> 'f gvalue list"

definition NewStep :: "msgs_Step \<Rightarrow> 'f Scheme \<Rightarrow> string + 'f Step" where
  "NewStep stepDoc StepDefFor =
    (let s = Step_literal stepDoc
     in case StepDefFor s of
          Inl err \<Rightarrow> Inl err
        | Inr (f, a) \<Rightarrow> Inr (s\<lparr>Func := f, Args := a\<rparr>))"

fun GenerateSteps :: "msgs_Step list \<Rightarrow> 'f Scheme \<Rightarrow> string + 'f Step list" where
  "GenerateSteps [] scheme = Inr []"
| "GenerateSteps (stepDoc # stepDocs) scheme =
    (case NewStep stepDoc scheme of
       Inl err \<Rightarrow> Inl err
     | Inr step \<Rightarrow>
         (case GenerateSteps stepDocs scheme of
            Inl err \<Rightarrow> Inl err
          | Inr steps \<Rightarrow> Inr (step # steps)))"

section \<open>Package models: scenarios\<close>

text \<open>
  The loop of \<^verbatim>\<open>Scenario.Run\<close>: run the step, then leave the loop if its recorded result
  is not \<^verbatim>\<open>Passed\<close>. Besides the steps as the loop leaves them and the clock, the model
  returns the indices of the steps whose \<^verbatim>\<open>Run\<close> was called, in the order of the calls.
  \<open>i\<close> is the index of the first step of the list.
  The steps are taken as distinct objects, as \<^verbatim>\<open>GenerateSteps\<close> builds them.
\<close>

fun run_steps :: "nat \<Rightarrow> nat \<Rightarrow> 'f Step list \<Rightarrow> 'f Step list \<times> nat \<times> nat list" where
  "run_steps now i [] = ([], now, [])"
| "run_steps now i (step # steps) =
    (case Run now step of
       (step', now') \<Rightarrow>
         if Result (Execution step') \<noteq> Passed then (step' # steps, now', [i])
         else (case run_steps now' (Suc i) steps of
                 (steps', now'', called) \<Rightarrow> (step' # steps', now'', i # called)))"

definition Scenario_Run :: "nat \<Rightarrow> 'f Scenario \<Rightarrow> 'f Scenario \<times> nat \<times> nat list" where
  "Scenario_Run now s =
    (case run_steps now 0 (Steps s) of
       (steps', now', called) \<Rightarrow> (s\<lparr>Steps := steps'\<rparr>, now', called))"

text \<open>The result a step records when it is run; it does not depend on the clock.\<close>

definition result_of_Run :: "'f Step \<Rightarrow> Result" where
  "result_of_Run s = Result (Execution (fst (Run 0 s)))"

text \<open>
  The number of steps of a list that a scenario runs: those that pass, up to the first
  that does not pass, and that one.
\<close>

definition executed_count :: "'f Step list \<Rightarrow> nat" where
  "executed_count steps =
     min (length steps) (Suc (length (takeWhile (\<lambda>x. result_of_Run x = Passed) steps)))"

section \<open>Package strings\<close>

text \<open>
  Go strings are byte sequences; the model reads them as lists of characters. The texts a
  suite handles here are ASCII, where a byte, a character and a rune coincide.
\<close>

definition HasPrefix :: "string \<Rightarrow> string \<Rightarrow> bool" where
  "HasPrefix s prefix = (take (length prefix) s = prefix)"

fun Contains :: "string \<Rightarrow> string \<Rightarrow> bool" where
  "Contains [] substr = (substr = [])"
| "Contains (c # s) substr = (HasPrefix (c # s) substr \<or> Contains s substr)"

text \<open>
  \<^verbatim>\<open>strings.ReplaceAll(s, old, new)\<close> for a non-empty \<open>old\<close>: scan from the left; at an
  occurrence of \<open>old\<close> write \<open>new\<close> and continue behind the occurrence (the first argument
  counts the characters of the occurrence still to be skipped), elsewhere copy a character.
  For an empty \<open>old\<close> Go writes \<open>new\<close> at the start and after every rune.
\<close>

fun replace_scan :: "nat \<Rightarrow> string \<Rightarrow> string \<Rightarrow> string \<Rightarrow> string" where
  "replace_scan k [] old new = []"
| "replace_scan (Suc k) (c # s) old new = replace_scan k s old new"
| "replace_scan 0 (c # s) old new =
    (if HasPrefix (c # s) old then new @ replace_scan (length old - 1) s old new
     else c # replace_scan 0 s old new)"

definition ReplaceAll :: "string \<Rightarrow> string \<Rightarrow> string \<Rightarrow> string" where
  "ReplaceAll s old new =
    (if old = new then s
     else if old = [] then new @ concat (map (\<lambda>c. c # new) s)
     else replace_scan 0 s old new)"

section \<open>Package strconv\<close>

datatype NumError = ErrSyntax | ErrRange

definition is_digit :: "char \<Rightarrow> bool" where
  "is_digit c = (48 \<le> (of_char c :: nat) \<and> (of_char c :: nat) \<le> 57)"

definition digit_val :: "char \<Rightarrow> int" where
  "digit_val c = of_char c - 48"

definition dec_value :: "string \<Rightarrow> int" where
  "dec_value ds = foldl (\<lambda>n c. 10 * n + digit_val c) 0 ds"

text \<open>
  \<^verbatim>\<open>strconv.Atoi\<close> on a platform with 64-bit ints: an optional sign and then one or
  more decimal digits, nothing else. Its result is the value and the error; with a syntax
  error the value is 0, with a range error it is the nearest int.
\<close>

definition Atoi :: "string \<Rightarrow> int \<times> NumError option" where
  "Atoi s =
    (let neg = (s \<noteq> [] \<and> hd s = CHR ''-'');
         ds = (if s \<noteq> [] \<and> (hd s = CHR ''-'' \<or> hd s = CHR ''+'') then tl s else s);
         n = dec_value ds
     in if ds = [] \<or> \<not> list_all is_digit ds then (0, Some ErrSyntax)
        else if \<not> neg \<and> 2 ^ 63 \<le> n then (2 ^ 63 - 1, Some ErrRange)
        else if neg \<and> 2 ^ 63 < n then (- (2 ^ 63), Some ErrRange)
        else (if neg then - n else n, None))"

text \<open>
  \<^verbatim>\<open>strconv.ParseFloat(s, bitSize)\<close> is not modelled: the functions that call it take it
  as their first argument \<open>ParseFloat\<close>, of this type. The result is the float and the error.
\<close>

type_synonym 'f ParseFloat = "string \<Rightarrow> nat \<Rightarrow> 'f \<times> NumError option"

section \<open>Package regexp\<close>

text \<open>
  Go's \<^verbatim>\<open>regexp\<close> package belongs to the standard library, not to the repository. The
  suite needs it for compiling patterns and for \<^verbatim>\<open>MatchString\<close>, \<^verbatim>\<open>FindAll\<close> and
  \<^verbatim>\<open>FindSubmatch\<close>, so this section gives a model of it for the part of the syntax that
  the suite's own patterns are written in: literals, \<^verbatim>\<open>.\<close>, the classes \<^verbatim>\<open>\d \w \s\<close> and
  their negations, escaped punctuation, bracket classes with ranges, capturing groups,
  alternation, \<^verbatim>\<open>* + ?\<close>, and \<^verbatim>\<open>^ $\<close>. The matching is Go's: leftmost, and among the
  matches at the leftmost place the one a backtracking search finds first, with greedy
  repetitions. Texts are ASCII.

  The syntax tree follows \<^verbatim>\<open>regexp/syntax\<close>. A bracket class is a list of items, each a
  range of characters or a Perl class; a class, negated or not, can match a newline.
\<close>

datatype crange =
    CRange char char
  | CPerl bool "(char \<times> char) list"

datatype rx =
    Lit char
  | AnyCharNotNL
  | CharClass bool "crange list"
  | BeginText
  | EndText
  | EmptyMatch
  | Cat rx rx
  | Alt rx rx
  | Star rx
  | Plus rx
  | Quest rx
  | Capture nat rx

definition in_ranges :: "char \<Rightarrow> (char \<times> char) list \<Rightarrow> bool" where
  "in_ranges c rs =
    list_ex (\<lambda>(lo, hi). (of_char lo :: nat) \<le> of_char c \<and> (of_char c :: nat) \<le> of_char hi) rs"

fun in_crange :: "char \<Rightarrow> crange \<Rightarrow> bool" where
  "in_crange c (CRange lo hi) = in_ranges c [(lo, hi)]"
| "in_crange c (CPerl neg rs) = (in_ranges c rs \<noteq> neg)"

definition in_class :: "char \<Rightarrow> bool \<Rightarrow> crange list \<Rightarrow> bool" where
  "in_class c neg items = (list_ex (in_crange c) items \<noteq> neg)"

definition perl_d :: "(char \<times> char) list" where
  "perl_d = [(CHR ''0'', CHR ''9'')]"

definition perl_w :: "(char \<times> char) list" where
  "perl_w = [(CHR ''0'', CHR ''9''), (CHR ''A'', CHR ''Z''), (CHR ''_'', CHR ''_''),
             (CHR ''a'', CHR ''z'')]"

definition perl_s :: "(char \<times> char) list" where
  "perl_s = [(CHR 0x09, CHR 0x0A), (CHR 0x0C, CHR 0x0D), (CHR '' '', CHR '' '')]"

text \<open>
  A thread of the backtracking matcher: the position in the text, the rest of the text
  from there, and the groups captured so far (the latest capture of a group first).
  \<open>ms r t\<close> lists the threads that \<open>r\<close> can leave when started in thread \<open>t\<close>, the preferred
  one first. A repetition prefers one more round to stopping, and a round that consumes
  nothing is not repeated; so a repetition started with \<open>n\<close> characters left makes at most
  \<open>n\<close> rounds, which is the first argument of \<open>star_iter\<close>.
\<close>

type_synonym thread = "nat \<times> string \<times> (nat \<times> string) list"

fun star_iter :: "nat \<Rightarrow> (thread \<Rightarrow> thread list) \<Rightarrow> thread \<Rightarrow> thread list" where
  "star_iter 0 f t = [t]"
| "star_iter (Suc n) f t =
    concat (map (star_iter n f) (filter (\<lambda>t'. fst t < fst t') (f t))) @ [t]"

definition one_char :: "(char \<Rightarrow> bool) \<Rightarrow> thread \<Rightarrow> thread list" where
  "one_char ok t =
    (case t of (p, s, caps) \<Rightarrow>
       (case s of [] \<Rightarrow> [] | x # xs \<Rightarrow> if ok x then [(Suc p, xs, caps)] else []))"

primrec ms :: "rx \<Rightarrow> thread \<Rightarrow> thread list" where
  "ms (Lit c) t = one_char (\<lambda>x. x = c) t"
| "ms AnyCharNotNL t = one_char (\<lambda>x. x \<noteq> CHR 0x0A) t"
| "ms (CharClass neg items) t = one_char (\<lambda>x. in_class x neg items) t"
| "ms BeginText t = (if fst t = 0 then [t] else [])"
| "ms EndText t = (if fst (snd t) = [] then [t] else [])"
| "ms EmptyMatch t = [t]"
| "ms (Cat a b) t = concat (map (ms b) (ms a t))"
| "ms (Alt a b) t = ms a t @ ms b t"
| "ms (Star a) t = star_iter (length (fst (snd t))) (ms a) t"
| "ms (Plus a) t = concat (map (\<lambda>t'. star_iter (length (fst (snd t'))) (ms a) t') (ms a t))"
| "ms (Quest a) t = ms a t @ [t]"
| "ms (Capture i a) t =
    map (\<lambda>t'. (fst t', fst (snd t'), (i, take (fst t' - fst t) (fst (snd t))) # snd (snd t')))
      (ms a t)"

primrec NumSubexp :: "rx \<Rightarrow> nat" where
  "NumSubexp (Lit c) = 0"
| "NumSubexp AnyCharNotNL = 0"
| "NumSubexp (CharClass neg items) = 0"
| "NumSubexp BeginText = 0"
| "NumSubexp EndText = 0"
| "NumSubexp EmptyMatch = 0"
| "NumSubexp (Cat a b) = NumSubexp a + NumSubexp b"
| "NumSubexp (Alt a b) = NumSubexp a + NumSubexp b"
| "NumSubexp (Star a) = NumSubexp a"
| "NumSubexp (Plus a) = NumSubexp a"
| "NumSubexp (Quest a) = NumSubexp a"
| "NumSubexp (Capture i a) = Suc (NumSubexp a)"

text \<open>
  \<open>doExecute re text pos\<close> is the leftmost match that starts at \<open>pos\<close> or later: its start,
  its end and its captures. \<open>search\<close> tries the start positions one after the other; its
  last argument is the number of positions left, the end of the text being one of them.
\<close>

type_synonym rmatch = "nat \<times> nat \<times> (nat \<times> string) list"

fun search :: "rx \<Rightarrow> string \<Rightarrow> nat \<Rightarrow> nat \<Rightarrow> rmatch option" where
  "search re text i 0 = None"
| "search re text i (Suc k) =
    (case ms re (i, drop i text, []) of
       [] \<Rightarrow> search re text (Suc i) k
     | t # ts \<Rightarrow> Some (i, fst t, snd (snd t)))"

definition doExecute :: "rx \<Rightarrow> string \<Rightarrow> nat \<Rightarrow> rmatch option" where
  "doExecute re text pos = search re text pos (Suc (length text) - pos)"

definition MatchString :: "rx \<Rightarrow> string \<Rightarrow> bool" where
  "MatchString re s = (doExecute re s 0 \<noteq> None)"

text \<open>
  The loop of \<^verbatim>\<open>allMatches\<close>, which \<^verbatim>\<open>FindAll(b, -1)\<close> runs: find the next match from
  \<open>pos\<close>; an empty match right behind the previous match is not delivered; continue behind
  the match, or one character on after an empty match. Every round moves \<open>pos\<close> forward, so
  the loop makes at most \<open>length text + 2\<close> rounds; the first argument counts them down.
\<close>

fun allMatches :: "nat \<Rightarrow> rx \<Rightarrow> string \<Rightarrow> nat \<Rightarrow> nat option \<Rightarrow> rmatch list" where
  "allMatches 0 re text pos prevMatchEnd = []"
| "allMatches (Suc k) re text pos prevMatchEnd =
    (if length text < pos then []
     else case doExecute re text pos of
            None \<Rightarrow> []
          | Some m \<Rightarrow>
              (let b = fst m; e = fst (snd m);
                   accept = \<not> (e = pos \<and> prevMatchEnd = Some b);
                   pos' = (if e = pos then Suc pos else e)
               in (if accept then [m] else []) @ allMatches k re text pos' (Some e)))"

definition FindAll :: "rx \<Rightarrow> string \<Rightarrow> string list" where
  "FindAll re b =
    map (\<lambda>m. take (fst (snd m) - fst m) (drop (fst m) b))
      (allMatches (length b + 2) re b 0 None)"

text \<open>
  \<^verbatim>\<open>FindSubmatch\<close>: nil (\<open>None\<close>) without a match; otherwise the text of the match and
  of each of the pattern's groups, a group that took no part in the match being a nil slice,
  which the model does not tell from an empty one.
\<close>

definition FindSubmatch :: "rx \<Rightarrow> string \<Rightarrow> string list option" where
  "FindSubmatch re b =
    (case doExecute re b 0 of
       None \<Rightarrow> None
     | Some m \<Rightarrow>
         Some (take (fst (snd m) - fst m) (drop (fst m) b) #
               map (\<lambda>i. case map_of (snd (snd m)) i of None \<Rightarrow> [] | Some g \<Rightarrow> g)
                 [1 ..< Suc (NumSubexp re)]))"

subsection \<open>Compiling a pattern\<close>

text \<open>
  The pattern is split into tokens and the tokens are parsed with a stack of open groups,
  as Go's parser does. Where a pattern is refused by Go, or uses syntax outside the part
  modelled here (counted repetitions, non-greedy repetitions, flags and non-capturing
  groups, named classes, escapes other than the ones listed above), the result is \<open>None\<close>.
  A \<^verbatim>\<open>{\<close> that does not start a counted repetition is a literal, as in Go.
\<close>

datatype citem =
    CChar char
  | CDash
  | CSet bool "(char \<times> char) list"

datatype tok =
    TAtom rx
  | TLParen
  | TRParen
  | TBar
  | TStar
  | TPlus
  | TQuest

datatype lexmode =
    Outside
  | Inside bool bool "citem list"

definition is_alnum :: "char \<Rightarrow> bool" where
  "is_alnum c = in_ranges c [(CHR ''0'', CHR ''9''), (CHR ''A'', CHR ''Z''), (CHR ''a'', CHR ''z'')]"

definition escaped_literal :: "char \<Rightarrow> bool" where
  "escaped_literal c = ((of_char c :: nat) < 128 \<and> \<not> is_alnum c)"

definition perl_class :: "char \<Rightarrow> (bool \<times> (char \<times> char) list) option" where
  "perl_class c =
    (if c = CHR ''d'' then Some (False, perl_d)
     else if c = CHR ''D'' then Some (True, perl_d)
     else if c = CHR ''w'' then Some (False, perl_w)
     else if c = CHR ''W'' then Some (True, perl_w)
     else if c = CHR ''s'' then Some (False, perl_s)
     else if c = CHR ''S'' then Some (True, perl_s)
     else None)"

definition escape_atom :: "char \<Rightarrow> rx option" where
  "escape_atom c =
    (case perl_class c of
       Some (neg, rs) \<Rightarrow> Some (CharClass False [CPerl neg rs])
     | None \<Rightarrow> if escaped_literal c then Some (Lit c) else None)"

definition escape_citem :: "char \<Rightarrow> citem option" where
  "escape_citem c =
    (case perl_class c of
       Some (neg, rs) \<Rightarrow> Some (CSet neg rs)
     | None \<Rightarrow> if escaped_literal c then Some (CChar c) else None)"

fun citem_char :: "citem \<Rightarrow> char option" where
  "citem_char (CChar c) = Some c"
| "citem_char CDash = Some (CHR ''-'')"
| "citem_char (CSet neg rs) = None"

text \<open>
  The items between the brackets, in order: a Perl class stands for itself; a character
  followed by an unescaped \<^verbatim>\<open>-\<close> and a further item is a range, which must not run
  backwards and must not end in a Perl class; any other character stands for itself.
\<close>

fun mk_ranges :: "citem list \<Rightarrow> crange list option" where
  "mk_ranges [] = Some []"
| "mk_ranges (CSet neg rs # rest) = map_option ((#) (CPerl neg rs)) (mk_ranges rest)"
| "mk_ranges (lo # CDash # hi # rest) =
    (case (citem_char lo, citem_char hi) of
       (Some l, Some h) \<Rightarrow>
         if (of_char h :: nat) < of_char l then None
         else map_option ((#) (CRange l h)) (mk_ranges rest)
     | _ \<Rightarrow> None)"
| "mk_ranges (lo # rest) =
    (case citem_char lo of
       Some l \<Rightarrow> map_option ((#) (CRange l l)) (mk_ranges rest)
     | None \<Rightarrow> None)"

text \<open>
  \<open>Inside neg first acc\<close>: the scan is inside a bracket class that is negated if \<open>neg\<close>, has
  read the items \<open>acc\<close> (the last one first), and \<open>first\<close> says that no item was read yet,
  where a \<^verbatim>\<open>]\<close> is an item and does not close the class.
\<close>

fun lex :: "lexmode \<Rightarrow> string \<Rightarrow> tok list option" where
  "lex Outside [] = Some []"
| "lex (Inside neg first acc) [] = None"
| "lex (Inside neg first acc) (c # cs) =
    (if c = CHR '']'' \<and> \<not> first then
       (case mk_ranges (rev acc) of
          None \<Rightarrow> None
        | Some items \<Rightarrow> map_option ((#) (TAtom (CharClass neg items))) (lex Outside cs))
     else if c = CHR ''['' \<and> cs \<noteq> [] \<and> hd cs = CHR '':'' then None
     else if c = CHR 0x5C then
       (case cs of
          [] \<Rightarrow> None
        | e # r \<Rightarrow>
            (case escape_citem e of
               None \<Rightarrow> None
             | Some item \<Rightarrow> lex (Inside neg False (item # acc)) r))
     else if c = CHR ''-'' then lex (Inside neg False (CDash # acc)) cs
     else lex (Inside neg False (CChar c # acc)) cs)"
| "lex Outside (c # cs) =
    (if c = CHR 0x5C then
       (case cs of
          [] \<Rightarrow> None
        | e # r \<Rightarrow>
            (case escape_atom e of
               None \<Rightarrow> None
             | Some a \<Rightarrow> map_option ((#) (TAtom a)) (lex Outside r)))
     else if c = CHR ''['' then
       (case cs of
          [] \<Rightarrow> None
        | e # r \<Rightarrow>
            if e = CHR ''^'' then lex (Inside True True []) r
            else lex (Inside False True []) cs)
     else if c = CHR ''('' then
       (if cs \<noteq> [] \<and> hd cs = CHR ''?'' then None
        else map_option ((#) TLParen) (lex Outside cs))
     else if c = CHR '')'' then map_option ((#) TRParen) (lex Outside cs)
     else if c = CHR ''|'' then map_option ((#) TBar) (lex Outside cs)
     else if c = CHR ''*'' then map_option ((#) TStar) (lex Outside cs)
     else if c = CHR ''+'' then map_option ((#) TPlus) (lex Outside cs)
     else if c = CHR ''?'' then map_option ((#) TQuest) (lex Outside cs)
     else if c = CHR ''.'' then map_option ((#) (TAtom AnyCharNotNL)) (lex Outside cs)
     else if c = CHR ''^'' then map_option ((#) (TAtom BeginText)) (lex Outside cs)
     else if c = CHR ''$'' then map_option ((#) (TAtom EndText)) (lex Outside cs)
     else if c = CHR ''{'' \<and> cs \<noteq> [] \<and> is_digit (hd cs) then None
     else map_option ((#) (TAtom (Lit c))) (lex Outside cs))"

fun mk_concat :: "rx list \<Rightarrow> rx" where
  "mk_concat [] = EmptyMatch"
| "mk_concat [a] = a"
| "mk_concat (a # rest) = Cat a (mk_concat rest)"

fun mk_alternate :: "rx list \<Rightarrow> rx" where
  "mk_alternate [] = EmptyMatch"
| "mk_alternate [a] = a"
| "mk_alternate (a # rest) = Alt a (mk_alternate rest)"

text \<open>
  A frame of the parser's stack is an open group (the top level is group 0): its number,
  its finished alternatives and the items of its current alternative, both last first.
\<close>

type_synonym frame = "nat \<times> rx list \<times> rx list"

definition close_frame :: "rx list \<Rightarrow> rx list \<Rightarrow> rx" where
  "close_frame alts cur = mk_alternate (rev (mk_concat (rev cur) # alts))"

fun is_repeat :: "rx \<Rightarrow> bool" where
  "is_repeat (Star a) = True"
| "is_repeat (Plus a) = True"
| "is_repeat (Quest a) = True"
| "is_repeat a = False"

definition repeat_last :: "(rx \<Rightarrow> rx) \<Rightarrow> frame \<Rightarrow> frame option" where
  "repeat_last op fr =
    (case fr of (g, alts, cur) \<Rightarrow>
       (case cur of
          [] \<Rightarrow> None
        | a # rest \<Rightarrow> if is_repeat a then None else Some (g, alts, op a # rest)))"

text \<open>
  \<open>parse_toks n stack ts\<close>: \<open>n\<close> is the number the next group gets, the innermost open group
  is the head of \<open>stack\<close>. A repetition needs an item before it, and an item that is a
  repetition already cannot be repeated again (Go refuses \<^verbatim>\<open>a**\<close>, and \<^verbatim>\<open>a*?\<close> is a
  non-greedy repetition, which is not modelled).
\<close>

fun parse_toks :: "nat \<Rightarrow> frame list \<Rightarrow> tok list \<Rightarrow> rx option" where
  "parse_toks n [] ts = None"
| "parse_toks n [(g, alts, cur)] [] = Some (close_frame alts cur)"
| "parse_toks n (fr # fr' # st) [] = None"
| "parse_toks n ((g, alts, cur) # st) (TAtom a # ts) = parse_toks n ((g, alts, a # cur) # st) ts"
| "parse_toks n (fr # st) (TStar # ts) =
    (case repeat_last Star fr of None \<Rightarrow> None | Some fr' \<Rightarrow> parse_toks n (fr' # st) ts)"
| "parse_toks n (fr # st) (TPlus # ts) =
    (case repeat_last Plus fr of None \<Rightarrow> None | Some fr' \<Rightarrow> parse_toks n (fr' # st) ts)"
| "parse_toks n (fr # st) (TQuest # ts) =
    (case repeat_last Quest fr of None \<Rightarrow> None | Some fr' \<Rightarrow> parse_toks n (fr' # st) ts)"
| "parse_toks n ((g, alts, cur) # st) (TBar # ts) =
    parse_toks n ((g, mk_concat (rev cur) # alts, []) # st) ts"
| "parse_toks n st (TLParen # ts) = parse_toks (Suc n) ((n, [], []) # st) ts"
| "parse_toks n [fr] (TRParen # ts) = None"
| "parse_toks n ((g, alts, cur) # (g', alts', cur') # st) (TRParen # ts) =
    parse_toks n ((g', alts', Capture g (close_frame alts cur) # cur') # st) ts"

definition Compile :: "string \<Rightarrow> rx option" where
  "Compile expr =
    (case lex Outside expr of
       None \<Rightarrow> None
     | Some ts \<Rightarrow> parse_toks 1 [(0, [], [])] ts)"

section \<open>Package gobdd: the suite\<close>

subsection \<open>Step functions, hooks and panics\<close>

text \<open>
  A step function is kept as an \<^verbatim>\<open>interface{}\<close> and inspected by reflection. Of the
  type of a parameter the suite asks two things: its \<^verbatim>\<open>Kind\<close>, and whether it
  implements \<^verbatim>\<open>context.Context\<close>. \<open>TBytes\<close> is \<^verbatim>\<open>[]byte\<close>; \<open>TBool\<close> stands for the
  types of other kinds, to which \<^verbatim>\<open>reflect.Call\<close> cannot assign a byte slice.
\<close>

datatype gotype = TContext | TString | TInt | TFloat32 | TFloat64 | TBytes | TBool

datatype gokind = KInterface | KString | KInt | KFloat32 | KFloat64 | KSlice | KBool

fun Kind :: "gotype \<Rightarrow> gokind" where
  "Kind TContext = KInterface"
| "Kind TString = KString"
| "Kind TInt = KInt"
| "Kind TFloat32 = KFloat32"
| "Kind TFloat64 = KFloat64"
| "Kind TBytes = KSlice"
| "Kind TBool = KBool"

fun Implements_Context :: "gotype \<Rightarrow> bool" where
  "Implements_Context TContext = True"
| "Implements_Context t = False"

text \<open>The dynamic type of a value; \<^verbatim>\<open>reflect.Call\<close> panics on an argument it cannot assign.\<close>

fun type_of :: "'f gvalue \<Rightarrow> gotype" where
  "type_of VContext = TContext"
| "type_of (VString x) = TString"
| "type_of (VInt x) = TInt"
| "type_of (VFloat32 x) = TFloat32"
| "type_of (VFloat64 x) = TFloat64"
| "type_of (VBytes x) = TBytes"

definition assignable :: "'f gvalue \<Rightarrow> gotype \<Rightarrow> bool" where
  "assignable v t = (type_of v = t)"

text \<open>
  A value registered as a step function: something that is not a function, or a function
  with a name (to tell functions apart in the record of calls), the types of its
  parameters, and its body, which returns (\<open>None\<close>; the suite ignores what it returns) or
  panics with a message. A hook is a function of the context with a name; it returns or
  panics.
\<close>

datatype 'f stepfunc =
    NotFunc
  | GoFunc string "gotype list" "'f gvalue list \<Rightarrow> string option"

datatype hook = Hook string "string option"

text \<open>
  The values the suite panics with, and the panics of the runtime and of user code.
  \<open>CannotFindStepDef\<close> carries the message of the panic.
\<close>

datatype gopanic =
    ParameterTypeDoesNotCompile string string
  | StepFuncIncorrect string string
  | MustCompileFailed string
  | CannotFindStepDef string
  | ArityMismatch string nat nat
  | ReflectPanic string
  | NilDereference
  | IndexOutOfRange
  | UserPanic string

text \<open>
  \<^verbatim>\<open>fmt.Sprintf("cannot find step definition for step: %s%s", step.Keyword, step.Text)\<close>
\<close>

definition cannot_find_message :: "string \<Rightarrow> string \<Rightarrow> string" where
  "cannot_find_message keyword text = ''cannot find step definition for step: '' @ keyword @ text"

text \<open>
  What a run of the suite does that can be seen from outside: it calls hooks and step
  functions. The model records these calls in order, and also each panic that
  \<^verbatim>\<open>stepDef.run\<close> recovers, which in the program leaves no trace.
\<close>

datatype 'f event =
    HookCalled string
  | StepFuncCalled string "'f gvalue list"
  | PanicRecovered gopanic

subsection \<open>The suite and its options\<close>

record SuiteOptions =
  features :: "string list"
  ignoreTags :: "string list"
  tags :: "string list"
  beforeScenario :: "hook list"
  afterScenario :: "hook list"
  beforeStep :: "hook list"
  afterStep :: "hook list"
  runInParallel :: bool

text \<open>
  The expression of a step definition is a compiled regular expression: \<^verbatim>\<open>AddStep\<close>
  compiles it, \<^verbatim>\<open>AddRegexStep\<close> is given one.
\<close>

record 'f stepDef =
  expr :: rx
  f :: "'f stepfunc"

text \<open>
  \<^verbatim>\<open>parameterTypes\<close> is a Go map from a parameter type to its regular expressions. It
  is modelled as an association list with distinct keys, and a \<^verbatim>\<open>range\<close> over the map
  visits the keys in the order of the list; Go leaves that order open.
\<close>

record 'f Suite =
  steps :: "'f stepDef list"
  options :: SuiteOptions
  parameterTypes :: "(string \<times> string list) list"

definition NewSuiteOptions :: SuiteOptions where
  "NewSuiteOptions =
    \<lparr>features = [], ignoreTags = [], tags = [], beforeScenario = [], afterScenario = [],
     beforeStep = [], afterStep = [], runInParallel = False\<rparr>"

definition RunInParallel :: "SuiteOptions \<Rightarrow> SuiteOptions" where
  "RunInParallel opts = opts\<lparr>runInParallel := True\<rparr>"

definition WithFeaturesPath :: "string list \<Rightarrow> SuiteOptions \<Rightarrow> SuiteOptions" where
  "WithFeaturesPath path opts = opts\<lparr>features := path\<rparr>"

definition WithTags :: "string list \<Rightarrow> SuiteOptions \<Rightarrow> SuiteOptions" where
  "WithTags ts opts = opts\<lparr>tags := ts\<rparr>"

definition WithIgnoredTags :: "string list \<Rightarrow> SuiteOptions \<Rightarrow> SuiteOptions" where
  "WithIgnoredTags ts opts = opts\<lparr>ignoreTags := ts\<rparr>"

definition WithBeforeScenario :: "hook \<Rightarrow> SuiteOptions \<Rightarrow> SuiteOptions" where
  "WithBeforeScenario h opts = opts\<lparr>beforeScenario := beforeScenario opts @ [h]\<rparr>"

definition WithAfterScenario :: "hook \<Rightarrow> SuiteOptions \<Rightarrow> SuiteOptions" where
  "WithAfterScenario h opts = opts\<lparr>afterScenario := afterScenario opts @ [h]\<rparr>"

definition WithBeforeStep :: "hook \<Rightarrow> SuiteOptions \<Rightarrow> SuiteOptions" where
  "WithBeforeStep h opts = opts\<lparr>beforeStep := beforeStep opts @ [h]\<rparr>"

definition WithAfterStep :: "hook \<Rightarrow> SuiteOptions \<Rightarrow> SuiteOptions" where
  "WithAfterStep h opts = opts\<lparr>afterStep := afterStep opts @ [h]\<rparr>"

text \<open>
  \<^verbatim>\<open>s.parameterTypes[from] = append(s.parameterTypes[from], to)\<close> on the association list.
\<close>

fun map_append :: "(string \<times> string list) list \<Rightarrow> string \<Rightarrow> string \<Rightarrow> (string \<times> string list) list" where
  "map_append [] k v = [(k, [v])]"
| "map_append ((k', vs) # m) k v =
    (if k' = k then (k', vs @ [v]) # m else (k', vs) # map_append m k v)"

fun AddParameterTypes :: "'f Suite \<Rightarrow> string \<Rightarrow> string list \<Rightarrow> gopanic + 'f Suite" where
  "AddParameterTypes s from [] = Inr s"
| "AddParameterTypes s from (t # ts) =
    (case Compile t of
       None \<Rightarrow> Inl (ParameterTypeDoesNotCompile from t)
     | Some re \<Rightarrow>
         AddParameterTypes (s\<lparr>parameterTypes := map_append (parameterTypes s) from t\<rparr>) from ts)"

text \<open>
  The regular expressions of the default parameter types. Isabelle's string literals
  cannot hold a backslash or a quote, so these are written by their codes.
\<close>

definition backslash :: string where
  "backslash = [CHR 0x5C]"

definition int_re :: string where
  "int_re = ''('' @ backslash @ ''d)''"

definition float_re :: string where
  "float_re = ''([-+]?'' @ backslash @ ''d*'' @ backslash @ ''.?'' @ backslash @ ''d*)''"

definition word_re :: string where
  "word_re = ''(['' @ backslash @ ''d'' @ backslash @ ''w]+)''"

definition text_class_re :: string where
  "text_class_re =
    ''(['' @ backslash @ ''d'' @ backslash @ ''w'' @ backslash @ ''-'' @ backslash @ ''s]+)''"

definition text_re_double :: string where
  "text_re_double = [CHR 0x22] @ text_class_re @ [CHR 0x22]"

definition text_re_single :: string where
  "text_re_single = [CHR 0x27] @ text_class_re @ [CHR 0x27]"

definition NewSuite :: "(SuiteOptions \<Rightarrow> SuiteOptions) list \<Rightarrow> gopanic + 'f Suite" where
  "NewSuite optionClosures =
    (let opts = foldl (\<lambda>opts closure. closure opts) NewSuiteOptions optionClosures;
         s = \<lparr>steps = [], options = opts, parameterTypes = []\<rparr>
     in case AddParameterTypes s ''{int}'' [int_re] of
          Inl p \<Rightarrow> Inl p
        | Inr s1 \<Rightarrow>
            (case AddParameterTypes s1 ''{float}'' [float_re] of
               Inl p \<Rightarrow> Inl p
             | Inr s2 \<Rightarrow>
                 (case AddParameterTypes s2 ''{word}'' [word_re] of
                    Inl p \<Rightarrow> Inl p
                  | Inr s3 \<Rightarrow>
                      AddParameterTypes s3 ''{text}'' [text_re_double, text_re_single])))"

subsection \<open>Registering steps\<close>

definition validateStepFunc :: "'f stepfunc \<Rightarrow> string option" where
  "validateStepFunc v =
    (case v of
       NotFunc \<Rightarrow> Some ''the parameter should be a function''
     | GoFunc name ins body \<Rightarrow>
         if length ins < 1 then Some ''the function should have Context as the first argument''
         else if \<not> Implements_Context (hd ins)
           then Some ''the function should have Context as the first argument''
         else None)"

definition applyParameterTypes :: "'f Suite \<Rightarrow> string \<Rightarrow> string list" where
  "applyParameterTypes s pattern =
    pattern #
    concat (map (\<lambda>(from, to).
              concat (map (\<lambda>t. if Contains pattern from then [ReplaceAll pattern from t] else [])
                        to))
            (parameterTypes s))"

fun add_compiled :: "'f Suite \<Rightarrow> string list \<Rightarrow> 'f stepfunc \<Rightarrow> gopanic + 'f Suite" where
  "add_compiled s [] step = Inr s"
| "add_compiled s (e # exprs) step =
    (case Compile e of
       None \<Rightarrow> Inl (MustCompileFailed e)
     | Some compiled \<Rightarrow>
         add_compiled (s\<lparr>steps := steps s @ [\<lparr>expr = compiled, f = step\<rparr>]\<rparr>) exprs step)"

definition AddStep :: "'f Suite \<Rightarrow> string \<Rightarrow> 'f stepfunc \<Rightarrow> gopanic + 'f Suite" where
  "AddStep s pattern step =
    (case validateStepFunc step of
       Some err \<Rightarrow> Inl (StepFuncIncorrect pattern err)
     | None \<Rightarrow> add_compiled s (applyParameterTypes s pattern) step)"

definition AddRegexStep :: "'f Suite \<Rightarrow> rx \<Rightarrow> 'f stepfunc \<Rightarrow> gopanic + 'f Suite" where
  "AddRegexStep s re step =
    (case validateStepFunc step of
       Some err \<Rightarrow> Inl (StepFuncIncorrect [] err)
     | None \<Rightarrow> Inr (s\<lparr>steps := steps s @ [\<lparr>expr = re, f = step\<rparr>]\<rparr>))"

subsection \<open>Finding the definition of a step\<close>

text \<open>
  The loop of \<^verbatim>\<open>findStepDef\<close> over \<^verbatim>\<open>s.steps\<close>, with its three variables: \<open>sd\<close> (the zero
  \<^verbatim>\<open>stepDef\<close> is \<open>None\<close>), \<open>found\<close> and \<open>matched\<close>. The function returns, as in Go, the
  definition together with the error.
\<close>

fun findStepDef_loop ::
  "'f stepDef list \<Rightarrow> string \<Rightarrow> 'f stepDef option \<times> nat \<times> bool \<Rightarrow> 'f stepDef option \<times> nat \<times> bool" where
  "findStepDef_loop [] text vars = vars"
| "findStepDef_loop (step # rest) text (sd, found, matched) =
    (if \<not> MatchString (expr step) text then findStepDef_loop rest text (sd, found, matched)
     else (let l = length (FindAll (expr step) text)
           in if found < l then findStepDef_loop rest text (Some step, l, True)
              else findStepDef_loop rest text (sd, found, True)))"

definition findStepDef :: "'f Suite \<Rightarrow> string \<Rightarrow> 'f stepDef option \<times> string option" where
  "findStepDef s text =
    (case findStepDef_loop (steps s) text (None, 0, False) of
       (sd, found, matched) \<Rightarrow>
         if \<not> matched then (sd, Some ''cannot find step definition'') else (sd, None))"

text \<open>
  For the statement of what \<^verbatim>\<open>findStepDef\<close> returns: whether the definition at index \<open>i\<close>
  of the registered list matches the text, and how many non-overlapping matches its
  pattern has in the text.
\<close>

definition matches_at :: "'f stepDef list \<Rightarrow> string \<Rightarrow> nat \<Rightarrow> bool" where
  "matches_at ds text i = MatchString (expr (ds ! i)) text"

definition count_at :: "'f stepDef list \<Rightarrow> string \<Rightarrow> nat \<Rightarrow> nat" where
  "count_at ds text i = length (FindAll (expr (ds ! i)) text)"

subsection \<open>Running a step\<close>

text \<open>
  \<^verbatim>\<open>paramType\<close>: the value starts as the byte slice and is replaced by each of the four
  \<^verbatim>\<open>if\<close> statements whose kind is the kind of the parameter's type. The errors of
  \<^verbatim>\<open>Atoi\<close> and \<^verbatim>\<open>ParseFloat\<close> are dropped. Both float cases call \<^verbatim>\<open>ParseFloat\<close> with the
  bit size 32.
\<close>

definition paramType :: "'f ParseFloat \<Rightarrow> string \<Rightarrow> gotype \<Rightarrow> 'f gvalue" where
  "paramType ParseFloat param inType =
    (let v0 = VBytes param;
         v1 = (if Kind inType = KString then VString param else v0);
         v2 = (if Kind inType = KInt then VInt (fst (Atoi param)) else v1);
         v3 = (if Kind inType = KFloat32 then VFloat32 (fst (ParseFloat param 32)) else v2);
         v4 = (if Kind inType = KFloat64 then VFloat64 (fst (ParseFloat param 32)) else v3)
     in v4)"

text \<open>
  \<^verbatim>\<open>func (def *stepDef) run(ctx, params)\<close>. Its deferred function recovers every panic and
  does nothing with it, so \<^verbatim>\<open>run\<close> always returns; the result of the model is what
  happened inside: the call of the step function if it came to that, and the panic
  recovered, if any. \<^verbatim>\<open>d.Call(in)\<close> panics unless every argument can be assigned to its
  parameter.
\<close>

definition stepDef_run :: "'f ParseFloat \<Rightarrow> 'f stepDef \<Rightarrow> string list \<Rightarrow> 'f event list" where
  "stepDef_run ParseFloat def params =
    (case f def of
       NotFunc \<Rightarrow> [PanicRecovered (ReflectPanic ''reflect: NumIn of non-func type'')]
     | GoFunc name ins body \<Rightarrow>
         if length params + 1 \<noteq> length ins
         then [PanicRecovered (ArityMismatch name (length ins) (length params + 1))]
         else (let args = VContext # map2 (paramType ParseFloat) params (tl ins)
               in if \<not> list_all2 assignable args ins
                  then [PanicRecovered (ReflectPanic ''reflect: Call using a value of the wrong type'')]
                  else (case body args of
                          None \<Rightarrow> [StepFuncCalled name args]
                        | Some r \<Rightarrow> [StepFuncCalled name args, PanicRecovered (UserPanic r)])))"

text \<open>
  Calling a list of hooks in order. The result is the calls made and the panic of the hook
  that panicked, behind which no further hook is called.
\<close>

fun call_hooks :: "hook list \<Rightarrow> 'f event list \<times> gopanic option" where
  "call_hooks [] = ([], None)"
| "call_hooks (Hook name behaviour # hooks) =
    (case behaviour of
       Some r \<Rightarrow> ([HookCalled name], Some (UserPanic r))
     | None \<Rightarrow> (case call_hooks hooks of (events, p) \<Rightarrow> (HookCalled name # events, p)))"

definition callBeforeScenarios :: "'f Suite \<Rightarrow> 'f event list \<times> gopanic option" where
  "callBeforeScenarios s = call_hooks (beforeScenario (options s))"

definition callAfterScenarios :: "'f Suite \<Rightarrow> 'f event list \<times> gopanic option" where
  "callAfterScenarios s = call_hooks (afterScenario (options s))"

definition callBeforeSteps :: "'f Suite \<Rightarrow> 'f event list \<times> gopanic option" where
  "callBeforeSteps s = call_hooks (beforeStep (options s))"

definition callAfterSteps :: "'f Suite \<Rightarrow> 'f event list \<times> gopanic option" where
  "callAfterSteps s = call_hooks (afterStep (options s))"

text \<open>
  \<^verbatim>\<open>runStep\<close>. The result is the events of the call and the panic it ends with, if any.
  A missing definition is a panic before any hook is called. The after-step hooks are
  deferred behind the before-step hooks; as \<^verbatim>\<open>def.run\<close> never panics they always run after
  it.
\<close>

definition runStep :: "'f ParseFloat \<Rightarrow> 'f Suite \<Rightarrow> msgs_Step \<Rightarrow> 'f event list \<times> gopanic option" where
  "runStep ParseFloat s step =
    (case findStepDef s (msgs_Step.Text step) of
       (sd, Some err) \<Rightarrow>
         ([], Some (CannotFindStepDef
                      (cannot_find_message (msgs_Step.Keyword step) (msgs_Step.Text step))))
     | (None, None) \<Rightarrow> ([], Some NilDereference)
     | (Some def, None) \<Rightarrow>
         (case FindSubmatch (expr def) (msgs_Step.Text step) of
            None \<Rightarrow> ([], Some IndexOutOfRange)
          | Some submatch \<Rightarrow>
              (let params = tl submatch
               in case callBeforeSteps s of
                    (before, Some p) \<Rightarrow> (before, Some p)
                  | (before, None) \<Rightarrow>
                      (case callAfterSteps s of
                         (after, p) \<Rightarrow> (before @ stepDef_run ParseFloat def params @ after, p)))))"

text \<open>\<^verbatim>\<open>for _, step := range steps { s.runStep(ctx, step) }\<close>: a panic ends the loop.\<close>

fun runSteps :: "'f ParseFloat \<Rightarrow> 'f Suite \<Rightarrow> msgs_Step list \<Rightarrow> 'f event list \<times> gopanic option" where
  "runSteps ParseFloat s [] = ([], None)"
| "runSteps ParseFloat s (step # rest) =
    (case runStep ParseFloat s step of
       (events, Some p) \<Rightarrow> (events, Some p)
     | (events, None) \<Rightarrow>
         (case runSteps ParseFloat s rest of (events', p) \<Rightarrow> (events @ events', p)))"

subsection \<open>Scenario outlines\<close>

definition digits_re :: string where
  "digits_re = ''('' @ backslash @ ''d+)''"

definition signed_float_re :: string where
  "signed_float_re = ''([+-]?([0-9]*[.])?[0-9]+)''"

definition any_re :: string where
  "any_re = ''(.*)''"

definition getRegexpForVar :: "'f ParseFloat \<Rightarrow> string \<Rightarrow> string" where
  "getRegexpForVar ParseFloat v =
    (if snd (Atoi v) = None then digits_re
     else if snd (ParseFloat v 32) = None then signed_float_re
     else any_re)"

text \<open>
  The loop of \<^verbatim>\<open>stepFromExample\<close> over the placeholders, \<open>i\<close> being the index of the first
  of them; \<^verbatim>\<open>row.Cells[i]\<close> panics when the row has no cell \<open>i\<close>.
\<close>

fun stepFromExample_loop ::
  "'f ParseFloat \<Rightarrow> string \<Rightarrow> string \<Rightarrow> TableRow \<Rightarrow> nat \<Rightarrow> string list \<Rightarrow> gopanic + string \<times> string" where
  "stepFromExample_loop ParseFloat stepName e row i [] = Inr (stepName, e)"
| "stepFromExample_loop ParseFloat stepName e row i (ph # placeholders) =
    (if i < length (Cells row)
     then (let t = getRegexpForVar ParseFloat (Cells row ! i)
           in stepFromExample_loop ParseFloat (ReplaceAll stepName ph (Cells row ! i))
                (ReplaceAll e ph t) row (Suc i) placeholders)
     else Inl IndexOutOfRange)"

definition stepFromExample ::
  "'f ParseFloat \<Rightarrow> string \<Rightarrow> TableRow \<Rightarrow> string list \<Rightarrow> gopanic + string \<times> string" where
  "stepFromExample ParseFloat stepName row placeholders =
    stepFromExample_loop ParseFloat stepName stepName row 0 placeholders"

text \<open>
  The loop of \<^verbatim>\<open>stepsFromExamples\<close> over the rows of the table. It registers steps, so it
  returns the suite too. A row whose step text no definition matches is passed over.
\<close>

fun stepsFromExamples_rows ::
  "'f ParseFloat \<Rightarrow> 'f Suite \<Rightarrow> msgs_Step \<Rightarrow> string list \<Rightarrow> TableRow list \<Rightarrow>
     gopanic + msgs_Step list \<times> 'f Suite" where
  "stepsFromExamples_rows ParseFloat s sourceStep placeholders [] = Inr ([], s)"
| "stepsFromExamples_rows ParseFloat s sourceStep placeholders (row # rows) =
    (case stepFromExample ParseFloat (msgs_Step.Text sourceStep) row placeholders of
       Inl p \<Rightarrow> Inl p
     | Inr (stepText, e) \<Rightarrow>
         (case findStepDef s stepText of
            (sd, Some err) \<Rightarrow> stepsFromExamples_rows ParseFloat s sourceStep placeholders rows
          | (sd, None) \<Rightarrow>
              (case AddStep s e (case sd of None \<Rightarrow> NotFunc | Some def \<Rightarrow> f def) of
                 Inl p \<Rightarrow> Inl p
               | Inr s' \<Rightarrow>
                   (case stepsFromExamples_rows ParseFloat s' sourceStep placeholders rows of
                      Inl p \<Rightarrow> Inl p
                    | Inr (generated, s'') \<Rightarrow>
                        Inr (\<lparr>msgs_Step.Location = msgs_Step.Location sourceStep,
                              msgs_Step.Keyword = msgs_Step.Keyword sourceStep,
                              msgs_Step.KeywordType = [],
                              msgs_Step.Text = stepText,
                              msgs_Step.DocString = None,
                              msgs_Step.DataTable = None\<rparr> # generated, s'')))))"

definition stepsFromExamples ::
  "'f ParseFloat \<Rightarrow> 'f Suite \<Rightarrow> msgs_Step \<Rightarrow> Examples \<Rightarrow> gopanic + msgs_Step list \<times> 'f Suite" where
  "stepsFromExamples ParseFloat s sourceStep example =
    (case TableHeader example of
       None \<Rightarrow> Inl NilDereference
     | Some header \<Rightarrow>
         stepsFromExamples_rows ParseFloat s sourceStep
           (map (\<lambda>placeholder. ''<'' @ placeholder @ ''>'') (Cells header))
           (TableBody example))"

text \<open>
  The first loop of \<^verbatim>\<open>getOutlineStep\<close>: for one outline step, the steps generated from
  all example tables, appended; and that for every outline step.
\<close>

fun outline_examples ::
  "'f ParseFloat \<Rightarrow> 'f Suite \<Rightarrow> msgs_Step \<Rightarrow> Examples list \<Rightarrow> gopanic + msgs_Step list \<times> 'f Suite" where
  "outline_examples ParseFloat s outlineStep [] = Inr ([], s)"
| "outline_examples ParseFloat s outlineStep (example # examples) =
    (case stepsFromExamples ParseFloat s outlineStep example of
       Inl p \<Rightarrow> Inl p
     | Inr (generated, s') \<Rightarrow>
         (case outline_examples ParseFloat s' outlineStep examples of
            Inl p \<Rightarrow> Inl p
          | Inr (others, s'') \<Rightarrow> Inr (generated @ others, s'')))"

fun outline_stepsList ::
  "'f ParseFloat \<Rightarrow> 'f Suite \<Rightarrow> msgs_Step list \<Rightarrow> Examples list \<Rightarrow>
     gopanic + msgs_Step list list \<times> 'f Suite" where
  "outline_stepsList ParseFloat s [] examples = Inr ([], s)"
| "outline_stepsList ParseFloat s (outlineStep # outline) examples =
    (case outline_examples ParseFloat s outlineStep examples of
       Inl p \<Rightarrow> Inl p
     | Inr (generated, s') \<Rightarrow>
         (case outline_stepsList ParseFloat s' outline examples of
            Inl p \<Rightarrow> Inl p
          | Inr (stepsList, s'') \<Rightarrow> Inr (generated # stepsList, s'')))"

text \<open>
  The second loop: for every example table \<open>ei\<close>, every row index \<open>ci\<close> of that table and
  every outline step \<open>si\<close>, the element \<^verbatim>\<open>stepsList[si][ci]\<close>, which panics when the index is
  out of range. The row index is the index within its own table.
\<close>

definition stepsList_at :: "msgs_Step list list \<Rightarrow> nat \<Rightarrow> nat \<Rightarrow> msgs_Step option" where
  "stepsList_at stepsList si ci =
    (if si < length stepsList \<and> ci < length (stepsList ! si) then Some (stepsList ! si ! ci)
     else None)"

definition outline_order :: "msgs_Step list list \<Rightarrow> nat \<Rightarrow> Examples list \<Rightarrow> msgs_Step option list" where
  "outline_order stepsList n examples =
    concat (map (\<lambda>example.
              concat (map (\<lambda>ci. map (\<lambda>si. stepsList_at stepsList si ci) [0 ..< n])
                        [0 ..< length (TableBody example)]))
            examples)"

definition getOutlineStep ::
  "'f ParseFloat \<Rightarrow> 'f Suite \<Rightarrow> msgs_Step list \<Rightarrow> Examples list \<Rightarrow> gopanic + msgs_Step list \<times> 'f Suite" where
  "getOutlineStep ParseFloat s outline examples =
    (case outline_stepsList ParseFloat s outline examples of
       Inl p \<Rightarrow> Inl p
     | Inr (stepsList, s') \<Rightarrow>
         if length stepsList = 0 then Inr ([], s')
         else (case those (outline_order stepsList (length outline) examples) of
                 None \<Rightarrow> Inl IndexOutOfRange
               | Some newSteps \<Rightarrow> Inr (newSteps, s')))"

subsection \<open>Running scenarios and features\<close>

text \<open>
  The body of \<^verbatim>\<open>runScenario\<close> behind the \<^verbatim>\<open>defer\<close>: the steps of the background, then
  the steps generated from the examples if the scenario has examples, else the scenario's
  own steps. The result is the suite, the events and the panic that ended the body, if any.
  After a panic the suite is returned as it was; a panic ends the run.
\<close>

definition scenario_body ::
  "'f ParseFloat \<Rightarrow> 'f Suite \<Rightarrow> msgs_Scenario \<Rightarrow> msgs_Background option \<Rightarrow>
     'f Suite \<times> 'f event list \<times> gopanic option" where
  "scenario_body ParseFloat s scenario bkg =
    (case (case bkg of
             None \<Rightarrow> ([], None)
           | Some b \<Rightarrow> runSteps ParseFloat s (msgs_Background.Steps b)) of
       (events, Some p) \<Rightarrow> (s, events, Some p)
     | (events, None) \<Rightarrow>
         if 0 < length (msgs_Scenario.Examples scenario)
         then (case getOutlineStep ParseFloat s (msgs_Scenario.Steps scenario)
                      (msgs_Scenario.Examples scenario) of
                 Inl p \<Rightarrow> (s, events, Some p)
               | Inr (generated, s') \<Rightarrow>
                   (case runSteps ParseFloat s' generated of
                      (events', p) \<Rightarrow> (s', events @ events', p)))
         else (case runSteps ParseFloat s (msgs_Scenario.Steps scenario) of
                 (events', p) \<Rightarrow> (s, events @ events', p)))"

text \<open>
  \<^verbatim>\<open>runScenario\<close>: the before-scenario hooks; then the body, with the after-scenario hooks
  deferred: they run when the body returns and when it panics. A panic of the body goes on
  behind them, unless one of them panics itself.
\<close>

definition runScenario ::
  "'f ParseFloat \<Rightarrow> 'f Suite \<Rightarrow> msgs_Scenario \<Rightarrow> msgs_Background option \<Rightarrow>
     'f Suite \<times> 'f event list \<times> gopanic option" where
  "runScenario ParseFloat s scenario bkg =
    (case callBeforeScenarios s of
       (before, Some p) \<Rightarrow> (s, before, Some p)
     | (before, None) \<Rightarrow>
         (case scenario_body ParseFloat s scenario bkg of
            (s', events, p) \<Rightarrow>
              (case callAfterScenarios s' of
                 (after, Some q) \<Rightarrow> (s', before @ events @ after, Some q)
               | (after, None) \<Rightarrow> (s', before @ events @ after, p))))"

fun contains :: "string list \<Rightarrow> string \<Rightarrow> bool" where
  "contains [] x = False"
| "contains (n # a) x = (if x = n then True else contains a x)"

definition skipScenario :: "'f Suite \<Rightarrow> string list \<Rightarrow> bool" where
  "skipScenario s scenarioTags =
    (if list_ex (\<lambda>tag. contains (ignoreTags (options s)) tag) scenarioTags then True
     else if length (tags (options s)) = 0 then False
     else if list_ex (\<lambda>tag. contains (tags (options s)) tag) scenarioTags then False
     else True)"

text \<open>The loop of \<^verbatim>\<open>runFeature\<close> over the children of the feature.\<close>

fun runChildren ::
  "'f ParseFloat \<Rightarrow> 'f Suite \<Rightarrow> FeatureChild list \<Rightarrow> 'f Suite \<times> 'f event list \<times> gopanic option" where
  "runChildren ParseFloat s [] = (s, [], None)"
| "runChildren ParseFloat s (child # children) =
    (case Scenario child of
       None \<Rightarrow> runChildren ParseFloat s children
     | Some scenario \<Rightarrow>
         if skipScenario s (msgs_Scenario.Tags scenario) then runChildren ParseFloat s children
         else (case runScenario ParseFloat s scenario (FeatureChild.Background child) of
                 (s', events, Some p) \<Rightarrow> (s', events, Some p)
               | (s', events, None) \<Rightarrow>
                   (case runChildren ParseFloat s' children of
                      (s'', events', p) \<Rightarrow> (s'', events @ events', p))))"

definition runFeature ::
  "'f ParseFloat \<Rightarrow> 'f Suite \<Rightarrow> msgs_Feature \<Rightarrow> 'f Suite \<times> 'f event list \<times> gopanic option" where
  "runFeature ParseFloat s feature =
    (if list_ex (\<lambda>tag. contains (ignoreTags (options s)) tag) (msgs_Feature.Tags feature)
     then (s, [], None)
     else runChildren ParseFloat s (Children feature))"

text \<open>
  \<^verbatim>\<open>Suite.Run\<close> opens and parses the feature files and runs every document that has a
  feature. Reading and parsing belong to other packages; the model starts from the parsed
  documents, a document without a feature being \<open>None\<close>.
\<close>

fun Suite_Run ::
  "'f ParseFloat \<Rightarrow> 'f Suite \<Rightarrow> msgs_Feature option list \<Rightarrow> 'f Suite \<times> 'f event list \<times> gopanic option" where
  "Suite_Run ParseFloat s [] = (s, [], None)"
| "Suite_Run ParseFloat s (doc # docs) =
    (case doc of
       None \<Rightarrow> Suite_Run ParseFloat s docs
     | Some feature \<Rightarrow>
         (case runFeature ParseFloat s feature of
            (s', events, Some p) \<Rightarrow> (s', events, Some p)
          | (s', events, None) \<Rightarrow>
              (case Suite_Run ParseFloat s' docs of
                 (s'', events', p) \<Rightarrow> (s'', events @ events', p))))"

section \<open>Example inputs\<close>

text \<open>Steps and a scenario of package models, used to evaluate the functions above.\<close>

definition some_doc :: msgs_Step where
  "some_doc =
    \<lparr>msgs_Step.Location = None, msgs_Step.Keyword = ''Given '',
     msgs_Step.KeywordType = ''Context'', msgs_Step.Text = ''a step'',
     msgs_Step.DocString = None, msgs_Step.DataTable = None\<rparr>"

definition step_returning :: "retval list \<Rightarrow> 'f Step" where
  "step_returning ret = (Step_literal some_doc)\<lparr>Func := (\<lambda>args. (Returns ret, 1))\<rparr>"

definition step_panicking :: "'f Step" where
  "step_panicking = (Step_literal some_doc)\<lparr>Func := (\<lambda>args. (Panics ''boom'', 1))\<rparr>"

definition four_steps :: "'f Scenario" where
  "four_steps =
    \<lparr>Scenario.Location = None, Tags = [], Scenario.Keyword = ''Scenario'', Name = ''four'',
     Description = [], Background = None,
     Steps = [step_returning [RetNil], step_returning [RetNil],
              step_returning [RetError ''failed''], step_returning [RetNil]]\<rparr>"

definition scheme_nil :: "'f Scheme" where
  "scheme_nil s = Inr (\<lambda>args. (Returns [RetNil], 1), [])"

text \<open>
  A suite with four definitions, given as compiled expressions: in the text \<open>banana\<close> the
  first matches twice, the second and the third three times, the fourth not at all.
\<close>

definition noop_step :: "string \<Rightarrow> 'f stepfunc" where
  "noop_step name = GoFunc name [TContext] (\<lambda>args. None)"

definition banana_suite :: "'f Suite" where
  "banana_suite =
    \<lparr>steps = [\<lparr>expr = Lit CHR ''n'', f = noop_step ''first''\<rparr>,
              \<lparr>expr = Lit CHR ''a'', f = noop_step ''second''\<rparr>,
              \<lparr>expr = Lit CHR ''a'', f = noop_step ''third''\<rparr>,
              \<lparr>expr = Lit CHR ''x'', f = noop_step ''fourth''\<rparr>],
     options = NewSuiteOptions, parameterTypes = []\<rparr>"

text \<open>
  The suite that \<^verbatim>\<open>NewSuite()\<close> returns, the step of the specification's example
  (pattern and function \<^verbatim>\<open>f(ctx, n int)\<close>), and a step of a feature file with a given text.
\<close>

definition default_suite :: "'f Suite" where
  "default_suite =
    \<lparr>steps = [], options = NewSuiteOptions,
     parameterTypes = [(''{int}'', [int_re]), (''{float}'', [float_re]), (''{word}'', [word_re]),
                       (''{text}'', [text_re_double, text_re_single])]\<rparr>"

definition cucumbers_func :: "'f stepfunc" where
  "cucumbers_func = GoFunc ''f'' [TContext, TInt] (\<lambda>args. None)"

definition cucumbers_pattern :: string where
  "cucumbers_pattern = ''I have {int} cucumbers''"

definition given_step :: "string \<Rightarrow> msgs_Step" where
  "given_step text =
    \<lparr>msgs_Step.Location = Some (3, 5), msgs_Step.Keyword = ''Given '',
     msgs_Step.KeywordType = ''Context'', msgs_Step.Text = text,
     msgs_Step.DocString = None, msgs_Step.DataTable = None\<rparr>"


text \<open>
  A scenario outline with the one step \<open>I eat <count> apples\<close>, its step function, and an
  example table with the header \<open>count\<close> and one row for each of the given values.
\<close>

definition eat_func :: "'f stepfunc" where
  "eat_func = GoFunc ''eat'' [TContext, TInt] (\<lambda>args. None)"

definition eat_outline :: msgs_Step where
  "eat_outline =
    \<lparr>msgs_Step.Location = Some (7, 5), msgs_Step.Keyword = ''When '',
     msgs_Step.KeywordType = ''Action'', msgs_Step.Text = ''I eat <count> apples'',
     msgs_Step.DocString = None, msgs_Step.DataTable = None\<rparr>"

definition count_table :: "string list \<Rightarrow> Examples" where
  "count_table vs =
    \<lparr>TableHeader = Some \<lparr>Cells = [''count'']\<rparr>, TableBody = map (\<lambda>v. \<lparr>Cells = [v]\<rparr>) vs\<rparr>"


text \<open>
  A step function of the context alone, scenarios and features made of given steps, the
  suite with the one pattern \<open>I wait\<close>, and the suite with the one pattern
  \<^verbatim>\<open>I have (\d+) cucumbers\<close> registered with a function that takes the context only. The
  compiled expressions are written out; the lemmas \<open>AddStep_wait_suite\<close> and
  \<open>AddStep_ctx_only_suite\<close> show that these suites are what \<^verbatim>\<open>AddStep\<close> returns.
\<close>

definition wait_func :: "'f stepfunc" where
  "wait_func = GoFunc ''wait'' [TContext] (\<lambda>args. None)"

definition scenario_of :: "msgs_Step list \<Rightarrow> msgs_Scenario" where
  "scenario_of sts =
    \<lparr>msgs_Scenario.Location = None, msgs_Scenario.Tags = [], msgs_Scenario.Keyword = ''Scenario'',
     msgs_Scenario.Name = [], msgs_Scenario.Steps = sts, Examples = []\<rparr>"

definition child_of :: "msgs_Step list \<Rightarrow> FeatureChild" where
  "child_of sts = \<lparr>FeatureChild.Background = None, Scenario = Some (scenario_of sts)\<rparr>"

definition two_scenarios :: msgs_Feature where
  "two_scenarios =
    \<lparr>msgs_Feature.Tags = [],
     Children = [child_of [given_step ''something undefined'', given_step ''I wait''],
                 child_of [given_step ''I wait'']]\<rparr>"

definition second_scenario_only :: msgs_Feature where
  "second_scenario_only = \<lparr>msgs_Feature.Tags = [], Children = [child_of [given_step ''I wait'']]\<rparr>"

definition lits :: "string \<Rightarrow> rx list" where
  "lits s = map Lit s"

definition wait_suite :: "'f Suite" where
  "wait_suite = default_suite\<lparr>steps := [\<lparr>expr = mk_concat (lits ''I wait''), f = wait_func\<rparr>]\<rparr>"

definition ctx_only_func :: "'f stepfunc" where
  "ctx_only_func = GoFunc ''g'' [TContext] (\<lambda>args. None)"

definition cucumbers_count_rx :: rx where
  "cucumbers_count_rx =
    mk_concat (lits ''I have '' @ [Capture 1 (Plus (CharClass False [CPerl False perl_d]))] @
               lits '' cucumbers'')"

definition cucumbers_count_pattern :: string where
  "cucumbers_count_pattern = ''I have '' @ digits_re @ '' cucumbers''"

definition ctx_only_suite :: "'f Suite" where
  "ctx_only_suite = default_suite\<lparr>steps := [\<lparr>expr = cucumbers_count_rx, f = ctx_only_func\<rparr>]\<rparr>"


section \<open>Properties of package models\<close>

lemma Run_Result_clock: "Result (Execution (fst (Run now s))) = result_of_Run s"
  by (simp add: Run_def result_of_Run_def recovered_def Let_def
      split: prod.splits call_result.splits list.splits retval.splits)

lemma Run_Result_cases:
  "Result (Execution (fst (Run now s))) = Passed \<or> Result (Execution (fst (Run now s))) = Failed"
  by (simp add: Run_def recovered_def Let_def
      split: prod.splits call_result.splits list.splits retval.splits)

lemma Run_returns_times:
  "Func s (VContext # Args s) = (Returns ret, d) \<Longrightarrow>
   StartTime (Execution (fst (Run now s))) = now \<and>
   EndTime (Execution (fst (Run now s))) = now + d"
  by (simp add: Run_def recovered_def Let_def
      split: prod.splits call_result.splits list.splits retval.splits)

lemma Run_panics_times:
  "Func s (VContext # Args s) = (Panics r, d) \<Longrightarrow>
   StartTime (Execution (fst (Run now s))) = now \<and>
   EndTime (Execution (fst (Run now s))) = EndTime (Execution s)"
  by (simp add: Run_def recovered_def Let_def)

lemma run_steps_called:
  "run_steps now i xs = (xs', now', called) \<Longrightarrow>
     called = [i ..< i + executed_count xs] \<and>
     length xs' = length xs \<and>
     drop (executed_count xs) xs' = drop (executed_count xs) xs \<and>
     map (\<lambda>x. Result (Execution x)) (take (executed_count xs) xs') =
       map result_of_Run (take (executed_count xs) xs)"
proof (induction xs arbitrary: now i xs' now' called)
  case Nil
  then show ?case by (simp add: executed_count_def)
next
  case (Cons a xs)
  obtain a' n1 where r: "Run now a = (a', n1)" by (cases "Run now a")
  have ra: "Result (Execution a') = result_of_Run a"
    using Run_Result_clock[of now a] r by simp
  show ?case
  proof (cases "result_of_Run a = Passed")
    case False
    then show ?thesis using Cons.prems r ra by (auto simp: executed_count_def)
  next
    case True
    obtain ss n2 c2 where rs: "run_steps n1 (Suc i) xs = (ss, n2, c2)"
      by (cases "run_steps n1 (Suc i) xs") auto
    from Cons.IH[OF rs] have ih: "c2 = [Suc i ..< Suc i + executed_count xs]"
      "length ss = length xs"
      "drop (executed_count xs) ss = drop (executed_count xs) xs"
      "map (\<lambda>x. Result (Execution x)) (take (executed_count xs) ss) =
       map result_of_Run (take (executed_count xs) xs)" by auto
    have ec: "executed_count (a # xs) = Suc (executed_count xs)"
      using True by (simp add: executed_count_def)
    have res: "xs' = a' # ss" "called = i # c2"
      using Cons.prems r ra True rs by auto
    show ?thesis using ih ec res ra by (simp add: upt_rec)
  qed
qed

lemma result_of_Run_simps:
  "result_of_Run (step_returning [RetNil] :: 'f Step) = Passed"
  "result_of_Run (step_returning [RetError e] :: 'f Step) = Failed"
  by (simp_all add: result_of_Run_def Run_def step_returning_def Step_literal_def recovered_def)

lemma executed_count_four: "executed_count (Steps (four_steps :: 'f Scenario)) = 3"
  by (simp add: executed_count_def four_steps_def result_of_Run_simps Passed_def Failed_def)

text \<open>
  C5. \<^verbatim>\<open>Scenario.Run\<close> runs the steps in order and stops behind the first step whose
  recorded result is not \<^verbatim>\<open>Passed\<close>: the steps whose \<^verbatim>\<open>Run\<close> is called are those of
  index \<open>0\<close> up to \<open>executed_count\<close>, that is the steps that pass up to the first that does
  not, that one included; they record the result of their run, and every later step is
  left as it was.
\<close>

theorem Scenario_Run_halts_at_first_non_Passed:
  assumes "Scenario_Run now s = (s', now', called)"
  shows "called = [0 ..< executed_count (Steps s)] \<and>
         length (Steps s') = length (Steps s) \<and>
         drop (executed_count (Steps s)) (Steps s') = drop (executed_count (Steps s)) (Steps s) \<and>
         map (\<lambda>x. Result (Execution x)) (take (executed_count (Steps s)) (Steps s')) =
           map result_of_Run (take (executed_count (Steps s)) (Steps s))"
proof -
  obtain ss n c where r: "run_steps now 0 (Steps s) = (ss, n, c)"
    by (cases "run_steps now 0 (Steps s)") auto
  with assms have "s' = s\<lparr>Steps := ss\<rparr>" "called = c"
    by (auto simp: Scenario_Run_def)
  with run_steps_called[OF r] show ?thesis by simp
qed

text \<open>
  The scenario of the specification: steps that would yield Passed, Passed, Failed, Passed.
  Exactly the first three are run, and the fourth is left untouched.
\<close>

theorem Scenario_Run_halts_at_first_non_Passed_witness:
  "snd (snd (Scenario_Run 0 (four_steps :: unit Scenario))) = [0, 1, 2] \<and>
   map (\<lambda>x. Result (Execution x))
     (take 3 (Steps (fst (Scenario_Run 0 (four_steps :: unit Scenario)))))
     = [Passed, Passed, Failed] \<and>
   drop 3 (Steps (fst (Scenario_Run 0 (four_steps :: unit Scenario)))) = [step_returning [RetNil]]"
proof -
  let ?r = "Scenario_Run 0 (four_steps :: unit Scenario)"
  have e: "?r = (fst ?r, fst (snd ?r), snd (snd ?r))" by simp
  have u: "[0 ..< 3] = [0, 1, 2::nat]" by (simp add: upt_rec)
  have t: "take 3 (Steps (four_steps :: unit Scenario)) =
     [step_returning [RetNil], step_returning [RetNil], step_returning [RetError ''failed'']]"
    "drop 3 (Steps (four_steps :: unit Scenario)) = [step_returning [RetNil]]"
    by (simp_all add: four_steps_def)
  show ?thesis
    using Scenario_Run_halts_at_first_non_Passed[OF e]
    by (simp add: executed_count_four u t result_of_Run_simps)
qed

text \<open>
  C10. A step that \<^verbatim>\<open>NewStep\<close> has just built has the result \<^verbatim>\<open>Passed\<close>, the zero value of
  \<^verbatim>\<open>Result\<close>; a step \<open>t\<close> whose function returned nil records \<^verbatim>\<open>Passed\<close> too, so the
  result alone does not tell the two apart.
\<close>

theorem fresh_step_Result_is_Passed:
  assumes "NewStep stepDoc scheme = Inr s"
    and "Func t (VContext # Args t) = (Returns [RetNil], d)"
  shows "Result (Execution s) = Passed \<and> Passed = 0 \<and>
         Result (Execution (fst (Run now t))) = Result (Execution s)"
  using assms
  by (auto simp: NewStep_def Step_literal_def zero_StepExecution_def Passed_def Run_def Let_def
      split: sum.splits prod.splits)

theorem fresh_step_Result_is_Passed_witness:
  "(\<exists>s :: unit Step. NewStep some_doc scheme_nil = Inr s \<and>
      Func s (VContext # Args s) = (Returns [RetNil], 1) \<and>
      Result (Execution s) = Passed \<and>
      Result (Execution (fst (Run 7 s))) = Result (Execution s))"
proof -
  define s :: "unit Step"
    where "s = (Step_literal some_doc)\<lparr>Func := (\<lambda>args. (Returns [RetNil], 1)), Args := []\<rparr>"
  have a: "NewStep some_doc scheme_nil = Inr s"
    by (simp add: NewStep_def scheme_nil_def s_def)
  have b: "Func s (VContext # Args s) = (Returns [RetNil], 1)"
    by (simp add: s_def)
  from fresh_step_Result_is_Passed[OF a b, of 7] a b show ?thesis by blast
qed

text \<open>
  C9. A step whose function panics: \<^verbatim>\<open>Run\<close> at clock reading 5 records the start time 5
  and the result \<^verbatim>\<open>Failed\<close>, and leaves the end time at its old value, here the zero time:
  the recorded end lies before the recorded start.
\<close>

theorem Run_panic_leaves_EndTime_before_StartTime:
  "StartTime (Execution (fst (Run 5 (step_panicking :: 'f Step)))) = 5 \<and>
   EndTime (Execution (fst (Run 5 (step_panicking :: 'f Step)))) = 0 \<and>
   Result (Execution (fst (Run 5 (step_panicking :: 'f Step)))) = Failed \<and>
   Err (Execution (fst (Run 5 (step_panicking :: 'f Step)))) = Some ''boom'' \<and>
   \<not> StartTime (Execution (fst (Run 5 (step_panicking :: 'f Step))))
      \<le> EndTime (Execution (fst (Run 5 (step_panicking :: 'f Step))))"
  by (simp add: Run_def step_panicking_def Step_literal_def recovered_def zero_StepExecution_def)

section \<open>Properties of the suite: finding a step definition\<close>

lemma MatchString_FindAll: "MatchString re text \<Longrightarrow> FindAll re text \<noteq> []"
  by (auto simp: MatchString_def FindAll_def Let_def)

lemma MatchString_count: "MatchString re text \<Longrightarrow> 0 < length (FindAll re text)"
  using MatchString_FindAll by blast

lemma loop_char:
  "findStepDef_loop ds text (sd, found, matched) = (sd', found', matched') \<Longrightarrow>
     matched' = (matched \<or> (\<exists>i<length ds. matches_at ds text i)) \<and>
     (\<forall>i<length ds. matches_at ds text i \<longrightarrow> count_at ds text i \<le> found') \<and>
     ((sd' = sd \<and> found' = found) \<or>
      (\<exists>i<length ds. sd' = Some (ds ! i) \<and> matches_at ds text i \<and> count_at ds text i = found' \<and>
          found < found' \<and> (\<forall>j<i. matches_at ds text j \<longrightarrow> count_at ds text j < found')))"
proof (induction ds arbitrary: sd found matched)
  case Nil
  then show ?case by simp
next
  case (Cons d ds)
  let ?l = "length (FindAll (expr d) text)"
  have sh: "\<And>i. matches_at (d # ds) text (Suc i) = matches_at ds text i"
    "\<And>i. count_at (d # ds) text (Suc i) = count_at ds text i"
    "matches_at (d # ds) text 0 = MatchString (expr d) text"
    "count_at (d # ds) text 0 = ?l"
    by (simp_all add: matches_at_def count_at_def)
  show ?case
  proof (cases "MatchString (expr d) text")
    case False
    with Cons.prems have r: "findStepDef_loop ds text (sd, found, matched) = (sd', found', matched')"
      by simp
    note ih = Cons.IH[OF r]
    have m: "matched' = (matched \<or> (\<exists>i<length (d # ds). matches_at (d # ds) text i))"
      using ih False sh by (auto simp: less_Suc_eq_0_disj)
    have b: "\<forall>i<length (d # ds). matches_at (d # ds) text i \<longrightarrow> count_at (d # ds) text i \<le> found'"
      using ih False sh by (auto simp: less_Suc_eq_0_disj)
    from ih have "(sd' = sd \<and> found' = found) \<or>
      (\<exists>i<length ds. sd' = Some (ds ! i) \<and> matches_at ds text i \<and> count_at ds text i = found' \<and>
          found < found' \<and> (\<forall>j<i. matches_at ds text j \<longrightarrow> count_at ds text j < found'))" by blast
    then have c: "(sd' = sd \<and> found' = found) \<or>
      (\<exists>i<length (d # ds). sd' = Some ((d # ds) ! i) \<and> matches_at (d # ds) text i \<and>
          count_at (d # ds) text i = found' \<and>
          found < found' \<and> (\<forall>j<i. matches_at (d # ds) text j \<longrightarrow> count_at (d # ds) text j < found'))"
    proof
      assume "sd' = sd \<and> found' = found" then show ?thesis by blast
    next
      assume "\<exists>i<length ds. sd' = Some (ds ! i) \<and> matches_at ds text i \<and> count_at ds text i = found' \<and>
          found < found' \<and> (\<forall>j<i. matches_at ds text j \<longrightarrow> count_at ds text j < found')"
      then obtain i where i: "i < length ds" "sd' = Some (ds ! i)" "matches_at ds text i"
        "count_at ds text i = found'" "found < found'"
        "\<forall>j<i. matches_at ds text j \<longrightarrow> count_at ds text j < found'" by blast
      have "\<forall>j<Suc i. matches_at (d # ds) text j \<longrightarrow> count_at (d # ds) text j < found'"
        using i(6) False sh by (auto simp: less_Suc_eq_0_disj)
      with i sh have "Suc i < length (d # ds) \<and> sd' = Some ((d # ds) ! Suc i) \<and> matches_at (d # ds) text (Suc i) \<and>
          count_at (d # ds) text (Suc i) = found' \<and>
          found < found' \<and> (\<forall>j<Suc i. matches_at (d # ds) text j \<longrightarrow> count_at (d # ds) text j < found')"
        by simp
      then show ?thesis by blast
    qed
    from m b c show ?thesis by blast
  next
    case True
    show ?thesis
    proof (cases "found < ?l")
      case gt: True
      with True Cons.prems have r: "findStepDef_loop ds text (Some d, ?l, True) = (sd', found', matched')"
        by (simp add: Let_def)
      note ih = Cons.IH[OF r]
      have m: "matched' = (matched \<or> (\<exists>i<length (d # ds). matches_at (d # ds) text i))"
        using ih True sh by auto
      from ih have disj: "(sd' = Some d \<and> found' = ?l) \<or>
        (\<exists>i<length ds. sd' = Some (ds ! i) \<and> matches_at ds text i \<and> count_at ds text i = found' \<and>
          ?l < found' \<and> (\<forall>j<i. matches_at ds text j \<longrightarrow> count_at ds text j < found'))" by blast
      then have le: "?l \<le> found'" by auto
      have b: "\<forall>i<length (d # ds). matches_at (d # ds) text i \<longrightarrow> count_at (d # ds) text i \<le> found'"
        using ih le sh by (auto simp: less_Suc_eq_0_disj)
      from disj have c: "\<exists>i<length (d # ds). sd' = Some ((d # ds) ! i) \<and> matches_at (d # ds) text i \<and>
          count_at (d # ds) text i = found' \<and>
          found < found' \<and> (\<forall>j<i. matches_at (d # ds) text j \<longrightarrow> count_at (d # ds) text j < found')"
      proof
        assume "sd' = Some d \<and> found' = ?l"
        with True gt sh have "0 < length (d # ds) \<and> sd' = Some ((d # ds) ! 0) \<and> matches_at (d # ds) text 0 \<and>
          count_at (d # ds) text 0 = found' \<and>
          found < found' \<and> (\<forall>j<0. matches_at (d # ds) text j \<longrightarrow> count_at (d # ds) text j < found')"
          by simp
        then show ?thesis by blast
      next
        assume "\<exists>i<length ds. sd' = Some (ds ! i) \<and> matches_at ds text i \<and> count_at ds text i = found' \<and>
          ?l < found' \<and> (\<forall>j<i. matches_at ds text j \<longrightarrow> count_at ds text j < found')"
        then obtain i where i: "i < length ds" "sd' = Some (ds ! i)" "matches_at ds text i"
          "count_at ds text i = found'" "?l < found'"
          "\<forall>j<i. matches_at ds text j \<longrightarrow> count_at ds text j < found'" by blast
        have "\<forall>j<Suc i. matches_at (d # ds) text j \<longrightarrow> count_at (d # ds) text j < found'"
          using i(5,6) sh by (auto simp: less_Suc_eq_0_disj)
        with i sh gt have "Suc i < length (d # ds) \<and> sd' = Some ((d # ds) ! Suc i) \<and>
            matches_at (d # ds) text (Suc i) \<and> count_at (d # ds) text (Suc i) = found' \<and>
            found < found' \<and>
            (\<forall>j<Suc i. matches_at (d # ds) text j \<longrightarrow> count_at (d # ds) text j < found')"
          by simp
        then show ?thesis by blast
      qed
      from m b c show ?thesis by blast
    next
      case ngt: False
      with True Cons.prems have r: "findStepDef_loop ds text (sd, found, True) = (sd', found', matched')"
        by (simp add: Let_def)
      note ih = Cons.IH[OF r]
      have m: "matched' = (matched \<or> (\<exists>i<length (d # ds). matches_at (d # ds) text i))"
        using ih True sh by auto
      from ih have disj: "(sd' = sd \<and> found' = found) \<or>
        (\<exists>i<length ds. sd' = Some (ds ! i) \<and> matches_at ds text i \<and> count_at ds text i = found' \<and>
          found < found' \<and> (\<forall>j<i. matches_at ds text j \<longrightarrow> count_at ds text j < found'))" by blast
      then have le: "found \<le> found'" by auto
      have b: "\<forall>i<length (d # ds). matches_at (d # ds) text i \<longrightarrow> count_at (d # ds) text i \<le> found'"
        using ih le ngt sh by (auto simp: less_Suc_eq_0_disj)
      from disj have c: "(sd' = sd \<and> found' = found) \<or>
        (\<exists>i<length (d # ds). sd' = Some ((d # ds) ! i) \<and> matches_at (d # ds) text i \<and>
          count_at (d # ds) text i = found' \<and>
          found < found' \<and> (\<forall>j<i. matches_at (d # ds) text j \<longrightarrow> count_at (d # ds) text j < found'))"
      proof
        assume "sd' = sd \<and> found' = found" then show ?thesis by blast
      next
        assume "\<exists>i<length ds. sd' = Some (ds ! i) \<and> matches_at ds text i \<and> count_at ds text i = found' \<and>
          found < found' \<and> (\<forall>j<i. matches_at ds text j \<longrightarrow> count_at ds text j < found')"
        then obtain i where i: "i < length ds" "sd' = Some (ds ! i)" "matches_at ds text i"
          "count_at ds text i = found'" "found < found'"
          "\<forall>j<i. matches_at ds text j \<longrightarrow> count_at ds text j < found'" by blast
        have "\<forall>j<Suc i. matches_at (d # ds) text j \<longrightarrow> count_at (d # ds) text j < found'"
          using i(5,6) ngt sh by (auto simp: less_Suc_eq_0_disj)
        with i sh have "Suc i < length (d # ds) \<and> sd' = Some ((d # ds) ! Suc i) \<and>
            matches_at (d # ds) text (Suc i) \<and> count_at (d # ds) text (Suc i) = found' \<and>
            found < found' \<and>
            (\<forall>j<Suc i. matches_at (d # ds) text j \<longrightarrow> count_at (d # ds) text j < found')"
          by simp
        then show ?thesis by blast
      qed
      from m b c show ?thesis by blast
    qed
  qed
qed

text \<open>
  C1. \<^verbatim>\<open>findStepDef\<close> goes through the definitions in the order of registration and keeps
  those whose pattern matches somewhere in the text. If none matches it returns the error;
  otherwise it returns a matching definition whose number of non-overlapping matches is
  the greatest among the matching ones, and every matching definition registered before
  it has strictly fewer matches, so of several with the greatest number the one registered
  first is returned. In particular, if exactly one definition of the list matches, that
  one is returned, wherever in the list it stands.
\<close>

theorem findStepDef_most_matches:
  assumes "findStepDef s text = (sd, err)"
  shows "(if \<exists>i<length (steps s). matches_at (steps s) text i
          then err = None \<and>
               (\<exists>i<length (steps s). sd = Some (steps s ! i) \<and> matches_at (steps s) text i \<and>
                  (\<forall>j<length (steps s). matches_at (steps s) text j \<longrightarrow>
                       count_at (steps s) text j \<le> count_at (steps s) text i) \<and>
                  (\<forall>j<i. matches_at (steps s) text j \<longrightarrow>
                       count_at (steps s) text j < count_at (steps s) text i))
          else sd = None \<and> err = Some ''cannot find step definition'') \<and>
         (\<forall>d. filter (\<lambda>x. MatchString (expr x) text) (steps s) = [d] \<longrightarrow>
               sd = Some d \<and> err = None)"
proof -
  obtain sd' found' matched' where
    l: "findStepDef_loop (steps s) text (None, 0, False) = (sd', found', matched')"
    by (cases "findStepDef_loop (steps s) text (None, 0, False)") auto
  note c = loop_char[OF l]
  from assms l have sd: "sd = sd'" and err: "err = (if matched' then None else Some ''cannot find step definition'')"
    by (auto simp: findStepDef_def split: if_splits)
  let ?ex = "\<exists>i<length (steps s). matches_at (steps s) text i"
  have first: "(if ?ex
          then err = None \<and>
               (\<exists>i<length (steps s). sd = Some (steps s ! i) \<and> matches_at (steps s) text i \<and>
                  (\<forall>j<length (steps s). matches_at (steps s) text j \<longrightarrow>
                       count_at (steps s) text j \<le> count_at (steps s) text i) \<and>
                  (\<forall>j<i. matches_at (steps s) text j \<longrightarrow>
                       count_at (steps s) text j < count_at (steps s) text i))
          else sd = None \<and> err = Some ''cannot find step definition'')"
  proof (cases ?ex)
    case False
    with c have "matched' = False" by simp
    moreover from c False have "sd' = None" by blast
    ultimately show ?thesis using False sd err by simp
  next
    case True
    then obtain k where k: "k < length (steps s)" "matches_at (steps s) text k" by blast
    then have "0 < count_at (steps s) text k"
      using MatchString_count[of "expr (steps s ! k)" "text"]
      by (simp add: matches_at_def count_at_def)
    moreover from c k have "count_at (steps s) text k \<le> found'" by blast
    ultimately have pos: "0 < found'" by simp
    with c obtain i where i: "i < length (steps s)" "sd' = Some (steps s ! i)"
      "matches_at (steps s) text i" "count_at (steps s) text i = found'"
      "\<forall>j<i. matches_at (steps s) text j \<longrightarrow> count_at (steps s) text j < found'"
      by auto
    from c have ub: "\<forall>j<length (steps s). matches_at (steps s) text j \<longrightarrow>
        count_at (steps s) text j \<le> found'" by blast
    from c True have "matched'" by simp
    with True sd err i ub show ?thesis by auto
  qed
  have second: "\<forall>d. filter (\<lambda>x. MatchString (expr x) text) (steps s) = [d] \<longrightarrow>
               sd = Some d \<and> err = None"
  proof (intro allI impI)
    fix d assume fl: "filter (\<lambda>x. MatchString (expr x) text) (steps s) = [d]"
    then have "d \<in> set (filter (\<lambda>x. MatchString (expr x) text) (steps s))" by simp
    then have "d \<in> set (steps s)" "MatchString (expr d) text" by auto
    then obtain k where "k < length (steps s)" "steps s ! k = d" by (auto simp: in_set_conv_nth)
    with \<open>MatchString (expr d) text\<close> have ex: ?ex by (auto simp: matches_at_def)
    with first obtain i where i: "err = None" "i < length (steps s)" "sd = Some (steps s ! i)"
      "matches_at (steps s) text i" by auto
    then have "steps s ! i \<in> set (filter (\<lambda>x. MatchString (expr x) text) (steps s))"
      by (auto simp: matches_at_def)
    with fl have "steps s ! i = d" by simp
    with i show "sd = Some d \<and> err = None" by simp
  qed
  from first second show ?thesis by blast
qed

lemma banana_facts:
  "MatchString (Lit CHR ''n'') ''banana''"
  "MatchString (Lit CHR ''a'') ''banana''"
  "\<not> MatchString (Lit CHR ''x'') ''banana''"
  "length (FindAll (Lit CHR ''n'') ''banana'') = 2"
  "length (FindAll (Lit CHR ''a'') ''banana'') = 3"
  by code_simp+

lemma banana_find:
  "findStepDef (banana_suite :: 'f Suite) ''banana'' =
     (Some \<lparr>expr = Lit CHR ''a'', f = noop_step ''second''\<rparr>, None)"
  by (simp add: findStepDef_def banana_suite_def banana_facts)

theorem findStepDef_most_matches_witness:
  "findStepDef (banana_suite :: unit Suite) ''banana'' = (Some (steps banana_suite ! 1), None) \<and>
   matches_at (steps (banana_suite :: unit Suite)) ''banana'' 0 \<and>
   matches_at (steps (banana_suite :: unit Suite)) ''banana'' 2 \<and>
   count_at (steps (banana_suite :: unit Suite)) ''banana'' 0 = 2 \<and>
   count_at (steps (banana_suite :: unit Suite)) ''banana'' 1 = 3 \<and>
   count_at (steps (banana_suite :: unit Suite)) ''banana'' 2 = 3 \<and>
   (\<exists>i<length (steps (banana_suite :: unit Suite)).
      Some (steps (banana_suite :: unit Suite) ! 1) = Some (steps banana_suite ! i) \<and>
      (\<forall>j<length (steps (banana_suite :: unit Suite)).
          matches_at (steps (banana_suite :: unit Suite)) ''banana'' j \<longrightarrow>
          count_at (steps (banana_suite :: unit Suite)) ''banana'' j
            \<le> count_at (steps (banana_suite :: unit Suite)) ''banana'' i) \<and>
      (\<forall>j<i. matches_at (steps (banana_suite :: unit Suite)) ''banana'' j \<longrightarrow>
          count_at (steps (banana_suite :: unit Suite)) ''banana'' j
            < count_at (steps (banana_suite :: unit Suite)) ''banana'' i))"
proof -
  have h: "findStepDef (banana_suite :: unit Suite) ''banana'' = (Some (steps banana_suite ! 1), None)"
    by (simp add: banana_find) (simp add: banana_suite_def)
  have m: "matches_at (steps (banana_suite :: unit Suite)) ''banana'' 0"
    "matches_at (steps (banana_suite :: unit Suite)) ''banana'' 2"
    "count_at (steps (banana_suite :: unit Suite)) ''banana'' 0 = 2"
    "count_at (steps (banana_suite :: unit Suite)) ''banana'' 1 = 3"
    "count_at (steps (banana_suite :: unit Suite)) ''banana'' 2 = 3"
    by (simp_all add: matches_at_def count_at_def banana_suite_def banana_facts)
  have ex: "\<exists>i<length (steps (banana_suite :: unit Suite)).
      matches_at (steps (banana_suite :: unit Suite)) ''banana'' i"
    using m(1) by (intro exI[of _ 0]) (simp add: banana_suite_def)
  from findStepDef_most_matches[OF h] ex h m show ?thesis by auto
qed


section \<open>Properties of the suite: the default parameter types\<close>

lemma default_compile:
  "Compile int_re \<noteq> None" "Compile float_re \<noteq> None" "Compile word_re \<noteq> None"
  "Compile text_re_double \<noteq> None" "Compile text_re_single \<noteq> None"
  by code_simp+

lemma NewSuite_default: "NewSuite [] = Inr (default_suite :: 'f Suite)"
  using default_compile
  by (auto simp: NewSuite_def default_suite_def Let_def)

lemma apply_cucumbers:
  "applyParameterTypes (default_suite :: 'f Suite) cucumbers_pattern =
     [cucumbers_pattern, ''I have '' @ int_re @ '' cucumbers'']"
  unfolding applyParameterTypes_def default_suite_def by simp code_simp

lemma cucumbers_literal_no_match: "(case Compile cucumbers_pattern of None \<Rightarrow> False
     | Some re \<Rightarrow> \<not> MatchString re ''I have 42 cucumbers'' \<and> \<not> MatchString re ''I have 4 cucumbers'')"
  by code_simp

lemma cucumbers_digit_one_only: "(case Compile (''I have '' @ int_re @ '' cucumbers'') of None \<Rightarrow> False
     | Some re \<Rightarrow> \<not> MatchString re ''I have 42 cucumbers'' \<and> MatchString re ''I have 4 cucumbers''
          \<and> FindSubmatch re ''I have 4 cucumbers'' = Some [''I have 4 cucumbers'', ''4'']
          \<and> length (FindAll re ''I have 4 cucumbers'') = 1)"
  by code_simp

lemma cucumbers_suite:
  obtains r1 r2 where
    "AddStep (default_suite :: 'f Suite) cucumbers_pattern cucumbers_func =
       Inr (default_suite\<lparr>steps := [\<lparr>expr = r1, f = cucumbers_func\<rparr>, \<lparr>expr = r2, f = cucumbers_func\<rparr>]\<rparr>)"
    "\<not> MatchString r1 ''I have 42 cucumbers''" "\<not> MatchString r1 ''I have 4 cucumbers''"
    "\<not> MatchString r2 ''I have 42 cucumbers''" "MatchString r2 ''I have 4 cucumbers''"
    "FindSubmatch r2 ''I have 4 cucumbers'' = Some [''I have 4 cucumbers'', ''4'']"
    "length (FindAll r2 ''I have 4 cucumbers'') = 1"
proof -
  from cucumbers_literal_no_match obtain r1 where r1: "Compile cucumbers_pattern = Some r1"
    "\<not> MatchString r1 ''I have 42 cucumbers''" "\<not> MatchString r1 ''I have 4 cucumbers''"
    by (auto split: option.splits)
  from cucumbers_digit_one_only obtain r2 where r2: "Compile (''I have '' @ int_re @ '' cucumbers'') = Some r2"
    "\<not> MatchString r2 ''I have 42 cucumbers''" "MatchString r2 ''I have 4 cucumbers''"
    "FindSubmatch r2 ''I have 4 cucumbers'' = Some [''I have 4 cucumbers'', ''4'']"
    "length (FindAll r2 ''I have 4 cucumbers'') = 1"
    by (auto split: option.splits)
  have v: "validateStepFunc (cucumbers_func :: 'f stepfunc) = None"
    by (simp add: validateStepFunc_def cucumbers_func_def)
  have "AddStep (default_suite :: 'f Suite) cucumbers_pattern cucumbers_func =
       Inr (default_suite\<lparr>steps := [\<lparr>expr = r1, f = cucumbers_func\<rparr>, \<lparr>expr = r2, f = cucumbers_func\<rparr>]\<rparr>)"
    using r1(1) r2(1) by (simp add: AddStep_def v apply_cucumbers) (simp add: default_suite_def)
  with r1 r2 that show ?thesis by blast
qed

text \<open>
  C2. The suite with the default parameter types, the pattern \<open>I have {int} cucumbers\<close>
  registered with \<^verbatim>\<open>f(ctx, n int)\<close>: registration adds two definitions, the pattern as
  it is and the pattern with \<^verbatim>\<open>(\d)\<close> for \<^verbatim>\<open>{int}\<close>, which matches one digit. Neither
  matches the text \<open>I have 42 cucumbers\<close>: \<^verbatim>\<open>findStepDef\<close> returns its error and
  \<^verbatim>\<open>runStep\<close> panics without calling \<^verbatim>\<open>f\<close>.
\<close>

theorem int_parameter_does_not_match_42:
  "\<exists>s0 s :: 'f Suite.
     NewSuite [] = Inr s0 \<and> AddStep s0 cucumbers_pattern cucumbers_func = Inr s \<and>
     length (steps s) = 2 \<and>
     findStepDef s ''I have 42 cucumbers'' = (None, Some ''cannot find step definition'') \<and>
     runStep ParseFloat s (given_step ''I have 42 cucumbers'') =
       ([], Some (CannotFindStepDef ''cannot find step definition for step: Given I have 42 cucumbers''))"
proof -
  obtain r1 r2 where r:
    "AddStep (default_suite :: 'f Suite) cucumbers_pattern cucumbers_func =
       Inr (default_suite\<lparr>steps := [\<lparr>expr = r1, f = cucumbers_func\<rparr>, \<lparr>expr = r2, f = cucumbers_func\<rparr>]\<rparr>)"
    "\<not> MatchString r1 ''I have 42 cucumbers''" "\<not> MatchString r2 ''I have 42 cucumbers''"
    using cucumbers_suite[where 'f = 'f] by metis
  let ?s = "(default_suite :: 'f Suite)\<lparr>steps := [\<lparr>expr = r1, f = cucumbers_func\<rparr>, \<lparr>expr = r2, f = cucumbers_func\<rparr>]\<rparr>"
  have fd: "findStepDef ?s ''I have 42 cucumbers'' = (None, Some ''cannot find step definition'')"
    using r(2,3) by (simp add: findStepDef_def)
  have rs: "runStep ParseFloat ?s (given_step ''I have 42 cucumbers'') =
       ([], Some (CannotFindStepDef ''cannot find step definition for step: Given I have 42 cucumbers''))"
    by (simp add: runStep_def given_step_def fd cannot_find_message_def)
  show ?thesis
    using NewSuite_default[where 'f = 'f] r(1) fd rs
    by (intro exI[of _ default_suite] exI[of _ ?s]) simp
qed

text \<open>With one digit the step runs: \<^verbatim>\<open>f\<close> is called with the context and the int 4.\<close>

lemma int_parameter_single_digit_runs:
  "\<exists>s :: 'f Suite.
     AddStep default_suite cucumbers_pattern cucumbers_func = Inr s \<and>
     runStep ParseFloat s (given_step ''I have 4 cucumbers'') =
       ([StepFuncCalled ''f'' [VContext, VInt 4]], None)"
proof -
  obtain r1 r2 where r:
    "AddStep (default_suite :: 'f Suite) cucumbers_pattern cucumbers_func =
       Inr (default_suite\<lparr>steps := [\<lparr>expr = r1, f = cucumbers_func\<rparr>, \<lparr>expr = r2, f = cucumbers_func\<rparr>]\<rparr>)"
    "\<not> MatchString r1 ''I have 4 cucumbers''" "MatchString r2 ''I have 4 cucumbers''"
    "FindSubmatch r2 ''I have 4 cucumbers'' = Some [''I have 4 cucumbers'', ''4'']"
    "length (FindAll r2 ''I have 4 cucumbers'') = 1"
    using cucumbers_suite[where 'f = 'f] by metis
  let ?s = "(default_suite :: 'f Suite)\<lparr>steps := [\<lparr>expr = r1, f = cucumbers_func\<rparr>, \<lparr>expr = r2, f = cucumbers_func\<rparr>]\<rparr>"
  have fd: "findStepDef ?s ''I have 4 cucumbers'' = (Some \<lparr>expr = r2, f = cucumbers_func\<rparr>, None)"
    using r(2,3,5) by (simp add: findStepDef_def)
  have a4: "Atoi ''4'' = (4, None)" by code_simp
  have hooks: "callBeforeSteps ?s = ([], None)" "callAfterSteps ?s = ([], None)"
    by (simp_all add: callBeforeSteps_def callAfterSteps_def default_suite_def NewSuiteOptions_def)
  have run: "stepDef_run ParseFloat \<lparr>expr = r2, f = cucumbers_func\<rparr> [''4''] =
      [StepFuncCalled ''f'' [VContext, VInt 4]]"
    by (simp add: stepDef_run_def cucumbers_func_def paramType_def a4 assignable_def)
  have rs: "runStep ParseFloat ?s (given_step ''I have 4 cucumbers'') =
       ([StepFuncCalled ''f'' [VContext, VInt 4]], None)"
    using r(4) by (simp add: runStep_def given_step_def fd hooks run)
  show ?thesis using r(1) rs by (intro exI[of _ ?s]) simp
qed


section \<open>Properties of the suite: expanding and registering a pattern\<close>

lemma concat_map_if:
  "concat (map (\<lambda>t. if c then [g t] else []) xs) = (if c then map g xs else [])"
  by (induction xs) auto

lemma applyParameterTypes_filter:
  "applyParameterTypes s pattern =
     pattern # concat (map (\<lambda>(from, to). map (ReplaceAll pattern from) to)
                        (filter (\<lambda>(from, to). Contains pattern from) (parameterTypes s)))"
proof -
  have "concat (map (\<lambda>(from, to).
              concat (map (\<lambda>t. if Contains pattern from then [ReplaceAll pattern from t] else []) to)) m)
      = concat (map (\<lambda>(from, to). map (ReplaceAll pattern from) to)
                        (filter (\<lambda>(from, to). Contains pattern from) m))" for m
    by (induction m) (auto simp: concat_map_if)
  then show ?thesis by (simp add: applyParameterTypes_def)
qed

lemma length_concat_variants:
  "length (concat (map (\<lambda>(from, to). map (g from) to) m)) = sum_list (map (\<lambda>(from, to). length to) m)"
  by (induction m) auto

lemma add_compiled_steps:
  "add_compiled s es step = Inr s' \<Longrightarrow>
     length (steps s') = length (steps s) + length es \<and>
     take (length (steps s)) (steps s') = steps s \<and>
     map (\<lambda>d. Some (expr d)) (drop (length (steps s)) (steps s')) = map Compile es \<and>
     list_all (\<lambda>d. f d = step) (drop (length (steps s)) (steps s')) \<and>
     options s' = options s \<and> parameterTypes s' = parameterTypes s"
proof (induction es arbitrary: s)
  case Nil
  then show ?case by simp
next
  case (Cons e es)
  from Cons.prems obtain r where r: "Compile e = Some r"
    and rest: "add_compiled (s\<lparr>steps := steps s @ [\<lparr>expr = r, f = step\<rparr>]\<rparr>) es step = Inr s'"
    by (auto split: option.splits)
  let ?s1 = "s\<lparr>steps := steps s @ [\<lparr>expr = r, f = step\<rparr>]\<rparr>"
  note ih = Cons.IH[OF rest]
  have len: "length (steps s') = length (steps s) + length (e # es)" using ih by simp
  have tk1: "take (Suc (length (steps s))) (steps s') = steps s @ [\<lparr>expr = r, f = step\<rparr>]"
    using ih by simp
  have tk: "take (length (steps s)) (steps s') = steps s"
  proof -
    have "take (length (steps s)) (take (Suc (length (steps s))) (steps s')) = steps s"
      by (simp only: tk1) simp
    then show ?thesis by (simp add: min_def)
  qed
  have lt: "length (steps s) < length (steps s')" using len by simp
  have nth: "steps s' ! length (steps s) = \<lparr>expr = r, f = step\<rparr>"
  proof -
    have "take (Suc (length (steps s))) (steps s') ! length (steps s) = \<lparr>expr = r, f = step\<rparr>"
      by (simp only: tk1) simp
    then show ?thesis by simp
  qed
  have dr: "drop (length (steps s)) (steps s') =
      \<lparr>expr = r, f = step\<rparr> # drop (Suc (length (steps s))) (steps s')"
    using lt nth by (metis Cons_nth_drop_Suc)
  from ih have d1: "map (\<lambda>d. Some (expr d)) (drop (Suc (length (steps s))) (steps s')) = map Compile es"
    "list_all (\<lambda>d. f d = step) (drop (Suc (length (steps s))) (steps s'))"
    "options s' = options s" "parameterTypes s' = parameterTypes s" by simp_all
  show ?case using len tk dr d1 r by simp
qed

lemma add_compiled_succeeds:
  "list_all (\<lambda>e. Compile e \<noteq> None) es \<Longrightarrow> \<exists>s'. add_compiled s es step = Inr s'"
  by (induction es arbitrary: s) auto

text \<open>
  C3, as the code has it. \<^verbatim>\<open>applyParameterTypes\<close> returns the pattern itself first and
  then, for every registered parameter type that occurs in the pattern, in the order in
  which the map is visited, one variant for each regular expression of that type: the
  pattern with every occurrence of the type replaced by the expression. So a pattern
  without a registered type gives the list of the pattern alone, and the length of the
  list is one more than the number of expressions of the types that occur. \<^verbatim>\<open>AddStep\<close>
  with a valid step function succeeds when every element of the list compiles, and then
  appends one definition for each element, in that order, all with the step function.
\<close>

theorem applyParameterTypes_original_then_variants:
  "(list_all (\<lambda>(from, to). \<not> Contains pattern from) (parameterTypes s) \<longrightarrow>
      applyParameterTypes s pattern = [pattern]) \<and>
   applyParameterTypes s pattern =
     pattern # concat (map (\<lambda>(from, to). map (ReplaceAll pattern from) to)
                        (filter (\<lambda>(from, to). Contains pattern from) (parameterTypes s))) \<and>
   length (applyParameterTypes s pattern) =
     1 + sum_list (map (\<lambda>(from, to). length to)
                     (filter (\<lambda>(from, to). Contains pattern from) (parameterTypes s))) \<and>
   (validateStepFunc step = None \<and>
    list_all (\<lambda>e. Compile e \<noteq> None) (applyParameterTypes s pattern) \<longrightarrow>
      (\<exists>s'. AddStep s pattern step = Inr s')) \<and>
   (AddStep s pattern step = Inr s' \<longrightarrow>
      length (steps s') = length (steps s) + length (applyParameterTypes s pattern) \<and>
      take (length (steps s)) (steps s') = steps s \<and>
      map (\<lambda>d. Some (expr d)) (drop (length (steps s)) (steps s')) =
        map Compile (applyParameterTypes s pattern) \<and>
      list_all (\<lambda>d. f d = step) (drop (length (steps s)) (steps s')))"
proof -
  let ?present = "filter (\<lambda>(from, to). Contains pattern from) (parameterTypes s)"
  have a: "list_all (\<lambda>(from, to). \<not> Contains pattern from) (parameterTypes s) \<longrightarrow>
      applyParameterTypes s pattern = [pattern]"
  proof
    assume "list_all (\<lambda>(from, to). \<not> Contains pattern from) (parameterTypes s)"
    then have "?present = []"
      by (auto simp: list_all_iff filter_empty_conv)
    then show "applyParameterTypes s pattern = [pattern]"
      by (simp add: applyParameterTypes_filter)
  qed
  have b: "length (applyParameterTypes s pattern) =
     1 + sum_list (map (\<lambda>(from, to). length to) ?present)"
    by (simp add: applyParameterTypes_filter length_concat_variants)
  have c: "validateStepFunc step = None \<and>
    list_all (\<lambda>e. Compile e \<noteq> None) (applyParameterTypes s pattern) \<longrightarrow>
      (\<exists>s'. AddStep s pattern step = Inr s')"
    using add_compiled_succeeds[of "applyParameterTypes s pattern" s step]
    by (auto simp: AddStep_def)
  have d: "AddStep s pattern step = Inr s' \<longrightarrow>
      length (steps s') = length (steps s) + length (applyParameterTypes s pattern) \<and>
      take (length (steps s)) (steps s') = steps s \<and>
      map (\<lambda>d. Some (expr d)) (drop (length (steps s)) (steps s')) =
        map Compile (applyParameterTypes s pattern) \<and>
      list_all (\<lambda>d. f d = step) (drop (length (steps s)) (steps s'))"
  proof
    assume "AddStep s pattern step = Inr s'"
    then have "add_compiled s (applyParameterTypes s pattern) step = Inr s'"
      by (auto simp: AddStep_def split: option.splits)
    from add_compiled_steps[OF this] show "length (steps s') = length (steps s) + length (applyParameterTypes s pattern) \<and>
      take (length (steps s)) (steps s') = steps s \<and>
      map (\<lambda>d. Some (expr d)) (drop (length (steps s)) (steps s')) =
        map Compile (applyParameterTypes s pattern) \<and>
      list_all (\<lambda>d. f d = step) (drop (length (steps s)) (steps s'))" by blast
  qed
  from a b c d applyParameterTypes_filter[of s pattern] show ?thesis by blast
qed

lemma no_token_in_I_wait:
  "list_all (\<lambda>(from, to). \<not> Contains ''I wait'' from) (parameterTypes (default_suite :: 'f Suite))"
  unfolding default_suite_def by simp code_simp

lemma cucumbers_variants_compile:
  "list_all (\<lambda>e. Compile e \<noteq> None) [cucumbers_pattern, ''I have '' @ int_re @ '' cucumbers'']"
  by code_simp

theorem applyParameterTypes_original_then_variants_witness:
  "list_all (\<lambda>(from, to). \<not> Contains ''I wait'' from) (parameterTypes (default_suite :: unit Suite)) \<and>
   applyParameterTypes (default_suite :: unit Suite) ''I wait'' = [''I wait''] \<and>
   length (applyParameterTypes (default_suite :: unit Suite) cucumbers_pattern) = 2 \<and>
   validateStepFunc (cucumbers_func :: unit stepfunc) = None \<and>
   (\<exists>s'. AddStep (default_suite :: unit Suite) cucumbers_pattern cucumbers_func = Inr s' \<and>
         length (steps s') = 2 \<and> list_all (\<lambda>d. f d = cucumbers_func) (steps s'))"
proof -
  have v: "validateStepFunc (cucumbers_func :: unit stepfunc) = None"
    by (simp add: validateStepFunc_def cucumbers_func_def)
  have st: "steps (default_suite :: unit Suite) = []"
    by (simp add: default_suite_def)
  have w: "applyParameterTypes (default_suite :: unit Suite) ''I wait'' = [''I wait'']"
    using applyParameterTypes_original_then_variants[of "''I wait''" "default_suite :: unit Suite"]
      no_token_in_I_wait by blast
  have c: "list_all (\<lambda>e. Compile e \<noteq> None)
      (applyParameterTypes (default_suite :: unit Suite) cucumbers_pattern)"
    using cucumbers_variants_compile by (simp add: apply_cucumbers)
  from applyParameterTypes_original_then_variants[of cucumbers_pattern
      "default_suite :: unit Suite" cucumbers_func] v c
  obtain s' where s': "AddStep (default_suite :: unit Suite) cucumbers_pattern cucumbers_func = Inr s'"
    by blast
  from applyParameterTypes_original_then_variants[of cucumbers_pattern
      "default_suite :: unit Suite" cucumbers_func s'] s'
  have "length (steps s') =
      length (steps (default_suite :: unit Suite)) +
      length (applyParameterTypes (default_suite :: unit Suite) cucumbers_pattern)"
    "list_all (\<lambda>d. f d = cucumbers_func)
      (drop (length (steps (default_suite :: unit Suite))) (steps s'))"
    by blast+
  then have "length (steps s') = 2" "list_all (\<lambda>d. f d = cucumbers_func) (steps s')"
    by (simp_all add: apply_cucumbers st)
  with s' v w no_token_in_I_wait show ?thesis
    by (simp add: apply_cucumbers)
qed

text \<open>
  C3 as claimed fails: the pattern \<open>I have {int} cucumbers\<close> contains the type \<^verbatim>\<open>{int}\<close>,
  which has one regular expression, and its expansion has two elements, the first being
  the pattern itself; registering it adds two definitions.
\<close>

theorem applyParameterTypes_keeps_original_counterexample:
  "Contains cucumbers_pattern ''{int}'' \<and>
   map_of (parameterTypes (default_suite :: unit Suite)) ''{int}'' = Some [int_re] \<and>
   applyParameterTypes (default_suite :: unit Suite) cucumbers_pattern =
     [cucumbers_pattern, ReplaceAll cucumbers_pattern ''{int}'' int_re] \<and>
   applyParameterTypes (default_suite :: unit Suite) cucumbers_pattern \<noteq>
     map (ReplaceAll cucumbers_pattern ''{int}'') [int_re] \<and>
   length (applyParameterTypes (default_suite :: unit Suite) cucumbers_pattern) \<noteq> length [int_re] \<and>
   (\<exists>s'. AddStep (default_suite :: unit Suite) cucumbers_pattern cucumbers_func = Inr s' \<and>
         length (steps s') = length (steps (default_suite :: unit Suite)) + 2)"
proof -
  have c: "Contains cucumbers_pattern ''{int}''" by code_simp
  have r: "ReplaceAll cucumbers_pattern ''{int}'' int_re = ''I have '' @ int_re @ '' cucumbers''"
    by code_simp
  have m: "map_of (parameterTypes (default_suite :: unit Suite)) ''{int}'' = Some [int_re]"
    by (simp add: default_suite_def)
  obtain r1 r2 where "AddStep (default_suite :: unit Suite) cucumbers_pattern cucumbers_func =
       Inr (default_suite\<lparr>steps := [\<lparr>expr = r1, f = cucumbers_func\<rparr>, \<lparr>expr = r2, f = cucumbers_func\<rparr>]\<rparr>)"
    using cucumbers_suite[where 'f = unit] by metis
  moreover have "steps (default_suite :: unit Suite) = []"
    by (simp add: default_suite_def)
  ultimately have "\<exists>s'. AddStep (default_suite :: unit Suite) cucumbers_pattern cucumbers_func = Inr s' \<and>
         length (steps s') = length (steps (default_suite :: unit Suite)) + 2"
    by simp
  with c r m show ?thesis by (simp add: apply_cucumbers)
qed


section \<open>Properties of the suite: scenario outlines\<close>

lemma two_tables_eval:
  "(case AddStep (default_suite :: 'f Suite) ''I eat {int} apples'' eat_func of
      Inl p \<Rightarrow> []
    | Inr s \<Rightarrow>
        (case getOutlineStep ParseFloat s [eat_outline] [count_table [''3''], count_table [''5'']] of
           Inl p \<Rightarrow> []
         | Inr (generated, s') \<Rightarrow> map msgs_Step.Text generated))
   = [''I eat 3 apples'', ''I eat 3 apples'']"
  by code_simp

lemma one_table_eval:
  "(case AddStep (default_suite :: 'f Suite) ''I eat {int} apples'' eat_func of
      Inl p \<Rightarrow> []
    | Inr s \<Rightarrow>
        (case getOutlineStep ParseFloat s [eat_outline] [count_table [''3'', ''5'']] of
           Inl p \<Rightarrow> []
         | Inr (generated, s') \<Rightarrow> map msgs_Step.Text generated))
   = [''I eat 3 apples'', ''I eat 5 apples'']"
  by code_simp

text \<open>
  C4. An outline of one step with two example tables of one row each, with the values 3
  and 5: \<^verbatim>\<open>getOutlineStep\<close> returns two steps, and both are the step of the first table's
  row. The step of the second table's row is generated but not returned, because the
  second loop indexes the generated steps by the row's index within its own table.
\<close>

theorem getOutlineStep_second_table_repeats_first:
  "\<exists>(s :: 'f Suite) s' generated.
     AddStep default_suite ''I eat {int} apples'' eat_func = Inr s \<and>
     getOutlineStep ParseFloat s [eat_outline] [count_table [''3''], count_table [''5'']] =
       Inr (generated, s') \<and>
     map msgs_Step.Text generated = [''I eat 3 apples'', ''I eat 3 apples'']"
proof (cases "AddStep (default_suite :: 'f Suite) ''I eat {int} apples'' eat_func")
  case (Inl p)
  with two_tables_eval[where 'f = 'f, of ParseFloat] show ?thesis by simp
next
  case (Inr s)
  show ?thesis
  proof (cases "getOutlineStep ParseFloat s [eat_outline] [count_table [''3''], count_table [''5'']]")
    case (Inl p)
    with Inr two_tables_eval[where 'f = 'f, of ParseFloat] show ?thesis by simp
  next
    case r: (Inr gs)
    obtain generated s' where gs: "gs = (generated, s')" by (cases gs)
    with Inr r two_tables_eval[where 'f = 'f, of ParseFloat] show ?thesis by simp
  qed
qed

text \<open>The same two rows in one table come out in the order of the rows.\<close>

lemma getOutlineStep_one_table_row_major:
  "\<exists>(s :: 'f Suite) s' generated.
     AddStep default_suite ''I eat {int} apples'' eat_func = Inr s \<and>
     getOutlineStep ParseFloat s [eat_outline] [count_table [''3'', ''5'']] =
       Inr (generated, s') \<and>
     map msgs_Step.Text generated = [''I eat 3 apples'', ''I eat 5 apples'']"
proof (cases "AddStep (default_suite :: 'f Suite) ''I eat {int} apples'' eat_func")
  case (Inl p)
  with one_table_eval[where 'f = 'f, of ParseFloat] show ?thesis by simp
next
  case (Inr s)
  show ?thesis
  proof (cases "getOutlineStep ParseFloat s [eat_outline] [count_table [''3'', ''5'']]")
    case (Inl p)
    with Inr one_table_eval[where 'f = 'f, of ParseFloat] show ?thesis by simp
  next
    case r: (Inr gs)
    obtain generated s' where gs: "gs = (generated, s')" by (cases gs)
    with Inr r one_table_eval[where 'f = 'f, of ParseFloat] show ?thesis by simp
  qed
qed

lemma stepFromExample_count_3:
  "stepFromExample ParseFloat ''I eat <count> apples'' \<lparr>Cells = [''3'']\<rparr> [''<count>''] =
     Inr (''I eat 3 apples'', ''I eat '' @ digits_re @ '' apples'')"
  by code_simp

lemma getRegexpForVar_cases:
  "getRegexpForVar ParseFloat v =
     (if snd (Atoi v) = None then digits_re
      else if snd (ParseFloat v 32) = None then signed_float_re else any_re)"
  by (simp add: getRegexpForVar_def)


section \<open>Properties of the suite: a step without a definition\<close>

lemma findStepDef_loop_no_match:
  "\<forall>d\<in>set ds. \<not> MatchString (expr d) text \<Longrightarrow>
     findStepDef_loop ds text (sd, found, matched) = (sd, found, matched)"
  by (induction ds) auto

lemma runSteps_append:
  "runSteps ParseFloat s pre = (ev, None) \<Longrightarrow>
   runSteps ParseFloat s (pre @ rest) =
     (case runSteps ParseFloat s rest of (ev', p) \<Rightarrow> (ev @ ev', p))"
proof (induction pre arbitrary: ev)
  case Nil
  then show ?case by (simp split: prod.splits)
next
  case (Cons a pre)
  then show ?case
    by (auto split: prod.splits option.splits)
qed

text \<open>
  C6, as the code has it. For a step whose text no registered definition matches,
  \<^verbatim>\<open>findStepDef\<close> returns the error \<open>cannot find step definition\<close>, and \<^verbatim>\<open>runStep\<close>
  panics with a message that ends in the step's keyword and text, before any hook or step
  function is called. Nothing recovers the panic: the steps behind it are not run; the
  scenario ends with the panic after its deferred after-scenario hooks; and a panic that
  leaves \<^verbatim>\<open>runScenario\<close> leaves \<^verbatim>\<open>runFeature\<close> and \<^verbatim>\<open>Run\<close> at once, so that no later
  scenario and no later document is run.
\<close>

theorem missing_step_definition_panics:
  assumes "\<forall>d\<in>set (steps s). \<not> MatchString (expr d) (msgs_Step.Text step)"
  shows "findStepDef s (msgs_Step.Text step) = (None, Some ''cannot find step definition'') \<and>
    runStep ParseFloat s step =
      ([], Some (CannotFindStepDef (''cannot find step definition for step: '' @
                   msgs_Step.Keyword step @ msgs_Step.Text step))) \<and>
    (runSteps ParseFloat s pre = (ev, None) \<longrightarrow>
       runSteps ParseFloat s (pre @ step # rest) =
         (ev, Some (CannotFindStepDef (''cannot find step definition for step: '' @
                   msgs_Step.Keyword step @ msgs_Step.Text step)))) \<and>
    (runSteps ParseFloat s pre = (ev, None) \<and> msgs_Scenario.Examples sc = [] \<and>
     msgs_Scenario.Steps sc = pre @ step # rest \<and>
     callBeforeScenarios s = (before, None) \<and> callAfterScenarios s = (after, None) \<longrightarrow>
       runScenario ParseFloat s sc None =
         (s, before @ ev @ after,
          Some (CannotFindStepDef (''cannot find step definition for step: '' @
                   msgs_Step.Keyword step @ msgs_Step.Text step)))) \<and>
    (Scenario child = Some sc' \<and> \<not> skipScenario s (msgs_Scenario.Tags sc') \<and>
     runScenario ParseFloat s sc' (FeatureChild.Background child) = (s1, evs, Some p) \<longrightarrow>
       runChildren ParseFloat s (child # children) = (s1, evs, Some p)) \<and>
    (runFeature ParseFloat s feature = (s1, evs, Some p) \<longrightarrow>
       Suite_Run ParseFloat s (Some feature # docs) = (s1, evs, Some p))"
proof -
  let ?P = "CannotFindStepDef (''cannot find step definition for step: '' @
                   msgs_Step.Keyword step @ msgs_Step.Text step)"
  have a: "findStepDef s (msgs_Step.Text step) = (None, Some ''cannot find step definition'')"
    using findStepDef_loop_no_match[OF assms] by (simp add: findStepDef_def)
  have b: "runStep ParseFloat s step = ([], Some ?P)"
    by (simp add: runStep_def a cannot_find_message_def)
  have c: "runSteps ParseFloat s pre = (ev, None) \<longrightarrow>
       runSteps ParseFloat s (pre @ step # rest) = (ev, Some ?P)"
    using runSteps_append[of ParseFloat s pre ev "step # rest"] b by simp
  have d: "runSteps ParseFloat s pre = (ev, None) \<and> msgs_Scenario.Examples sc = [] \<and>
     msgs_Scenario.Steps sc = pre @ step # rest \<and>
     callBeforeScenarios s = (before, None) \<and> callAfterScenarios s = (after, None) \<longrightarrow>
       runScenario ParseFloat s sc None = (s, before @ ev @ after, Some ?P)"
    using c by (auto simp: runScenario_def scenario_body_def)
  have e: "Scenario child = Some sc' \<and> \<not> skipScenario s (msgs_Scenario.Tags sc') \<and>
     runScenario ParseFloat s sc' (FeatureChild.Background child) = (s1, evs, Some p) \<longrightarrow>
       runChildren ParseFloat s (child # children) = (s1, evs, Some p)"
    by auto
  have g: "runFeature ParseFloat s feature = (s1, evs, Some p) \<longrightarrow>
       Suite_Run ParseFloat s (Some feature # docs) = (s1, evs, Some p)"
    by auto
  from a b c d e g show ?thesis by blast
qed

lemma Compile_I_wait: "Compile ''I wait'' = Some (mk_concat (lits ''I wait''))"
  by code_simp

lemma Compile_cucumbers_count:
  "Compile cucumbers_count_pattern = Some cucumbers_count_rx"
  by code_simp

lemma apply_no_token:
  "applyParameterTypes (default_suite :: 'f Suite) ''I wait'' = [''I wait'']"
  "applyParameterTypes (default_suite :: 'f Suite) cucumbers_count_pattern =
     [cucumbers_count_pattern]"
  unfolding applyParameterTypes_def default_suite_def by (simp, code_simp)+

lemma AddStep_wait_suite:
  "AddStep (default_suite :: 'f Suite) ''I wait'' wait_func = Inr wait_suite"
  by (simp add: AddStep_def validateStepFunc_def wait_func_def apply_no_token Compile_I_wait
      wait_suite_def) (simp add: default_suite_def)

lemma AddStep_ctx_only_suite:
  "AddStep (default_suite :: 'f Suite) cucumbers_count_pattern ctx_only_func =
     Inr ctx_only_suite"
  by (simp add: AddStep_def validateStepFunc_def ctx_only_func_def apply_no_token
      Compile_cucumbers_count ctx_only_suite_def) (simp add: default_suite_def)

lemma two_scenarios_run:
  "snd (Suite_Run ParseFloat (wait_suite :: unit Suite) [Some two_scenarios, Some second_scenario_only]) =
     ([], Some (CannotFindStepDef ''cannot find step definition for step: Given something undefined''))"
  by code_simp

lemma second_scenario_run:
  "snd (Suite_Run ParseFloat (wait_suite :: unit Suite) [Some second_scenario_only]) =
     ([StepFuncCalled ''wait'' [VContext]], None)"
  by code_simp

lemma arity_eval:
  "runStep ParseFloat (ctx_only_suite :: unit Suite) (given_step ''I have 42 cucumbers'') =
     ([PanicRecovered (ArityMismatch ''g'' 1 2)], None)"
  by code_simp

lemma wait_no_match: "\<not> MatchString (mk_concat (lits ''I wait'')) ''something undefined''"
  by code_simp

lemma wait_runs:
  "runSteps ParseFloat (wait_suite :: unit Suite) [given_step ''I wait''] =
     ([StepFuncCalled ''wait'' [VContext]], None)"
  by code_simp

lemma wait_suite_hooks:
  "callBeforeScenarios (wait_suite :: 'f Suite) = ([], None)"
  "callAfterScenarios (wait_suite :: 'f Suite) = ([], None)"
  by (simp_all add: callBeforeScenarios_def callAfterScenarios_def wait_suite_def
      default_suite_def NewSuiteOptions_def)

theorem missing_step_definition_panics_witness:
  "list_all (\<lambda>d. \<not> MatchString (expr d) ''something undefined'') (steps (wait_suite :: unit Suite)) \<and>
   (\<forall>ParseFloat.
      runStep ParseFloat (wait_suite :: unit Suite) (given_step ''something undefined'') =
        ([], Some (CannotFindStepDef
                     ''cannot find step definition for step: Given something undefined'')) \<and>
      runSteps ParseFloat (wait_suite :: unit Suite)
          [given_step ''I wait'', given_step ''something undefined'', given_step ''I wait''] =
        ([StepFuncCalled ''wait'' [VContext]],
         Some (CannotFindStepDef
                 ''cannot find step definition for step: Given something undefined'')) \<and>
      runScenario ParseFloat (wait_suite :: unit Suite)
          (scenario_of [given_step ''I wait'', given_step ''something undefined'',
                        given_step ''I wait'']) None =
        (wait_suite, [StepFuncCalled ''wait'' [VContext]],
         Some (CannotFindStepDef
                 ''cannot find step definition for step: Given something undefined'')))"
proof -
  have h: "\<forall>d\<in>set (steps (wait_suite :: unit Suite)).
      \<not> MatchString (expr d) (msgs_Step.Text (given_step ''something undefined''))"
    using wait_no_match by (simp add: wait_suite_def given_step_def)
  have l: "list_all (\<lambda>d. \<not> MatchString (expr d) ''something undefined'')
      (steps (wait_suite :: unit Suite))"
    using wait_no_match by (simp add: wait_suite_def)
  have k: "msgs_Step.Keyword (given_step ''something undefined'') = ''Given ''"
    "msgs_Step.Text (given_step ''something undefined'') = ''something undefined''"
    by (simp_all add: given_step_def)
  have sc: "msgs_Scenario.Examples (scenario_of [given_step ''I wait'',
        given_step ''something undefined'', given_step ''I wait'']) = []"
    "msgs_Scenario.Steps (scenario_of [given_step ''I wait'',
        given_step ''something undefined'', given_step ''I wait'']) =
      [given_step ''I wait''] @ given_step ''something undefined'' # [given_step ''I wait'']"
    by (simp_all add: scenario_of_def)
  have "runStep ParseFloat (wait_suite :: unit Suite) (given_step ''something undefined'') =
        ([], Some (CannotFindStepDef
                     ''cannot find step definition for step: Given something undefined'')) \<and>
      runSteps ParseFloat (wait_suite :: unit Suite)
          [given_step ''I wait'', given_step ''something undefined'', given_step ''I wait''] =
        ([StepFuncCalled ''wait'' [VContext]],
         Some (CannotFindStepDef
                 ''cannot find step definition for step: Given something undefined'')) \<and>
      runScenario ParseFloat (wait_suite :: unit Suite)
          (scenario_of [given_step ''I wait'', given_step ''something undefined'',
                        given_step ''I wait'']) None =
        (wait_suite, [StepFuncCalled ''wait'' [VContext]],
         Some (CannotFindStepDef
                 ''cannot find step definition for step: Given something undefined''))"
    for ParseFloat
    using missing_step_definition_panics[OF h, of ParseFloat "[given_step ''I wait'']"
        "[StepFuncCalled ''wait'' [VContext]]" "[given_step ''I wait'']"
        "scenario_of [given_step ''I wait'', given_step ''something undefined'',
                        given_step ''I wait'']" "[]" "[]"]
      wait_runs[of ParseFloat] wait_suite_hooks[where 'f = unit] sc
    by (simp add: k del: runSteps.simps)
  with l show ?thesis by blast
qed

text \<open>
  C6 as claimed fails. A feature whose first scenario has a step without a definition and
  whose second scenario has the step \<open>I wait\<close>, followed by a second document with that
  scenario alone: the run ends with the panic and has called no step function, while the
  second document on its own calls the step function.
\<close>

theorem missing_step_definition_aborts_run_counterexample:
  "\<forall>ParseFloat.
     snd (Suite_Run ParseFloat (wait_suite :: unit Suite)
            [Some two_scenarios, Some second_scenario_only]) =
       ([], Some (CannotFindStepDef
                    ''cannot find step definition for step: Given something undefined'')) \<and>
     snd (Suite_Run ParseFloat (wait_suite :: unit Suite) [Some second_scenario_only]) =
       ([StepFuncCalled ''wait'' [VContext]], None)"
  using two_scenarios_run second_scenario_run by blast

section \<open>Properties of the suite: calling the step function\<close>

lemma stepDef_run_arity_mismatch:
  "f def = GoFunc name ins body \<Longrightarrow> length params + 1 \<noteq> length ins \<Longrightarrow>
   stepDef_run ParseFloat def params =
     [PanicRecovered (ArityMismatch name (length ins) (length params + 1))]"
  by (simp add: stepDef_run_def)

lemma arity_eval2:
  "runSteps ParseFloat (ctx_only_suite :: unit Suite)
       [given_step ''I have 42 cucumbers'', given_step ''I have 7 cucumbers''] =
     ([PanicRecovered (ArityMismatch ''g'' 1 2), PanicRecovered (ArityMismatch ''g'' 1 2)], None)"
  by code_simp

text \<open>
  C7. The pattern \<^verbatim>\<open>I have (\d+) cucumbers\<close> has one group and its step function takes
  the context only. \<^verbatim>\<open>run\<close> panics with the arity mismatch before it calls the function,
  and its own deferred function recovers the panic and drops it: \<^verbatim>\<open>runStep\<close> calls no step
  function and returns normally, and the next step runs as if nothing had happened. The
  event \<open>PanicRecovered\<close> is the model's record; the program keeps none.
\<close>

theorem arity_mismatch_is_recovered_and_dropped:
  "runStep ParseFloat (ctx_only_suite :: unit Suite) (given_step ''I have 42 cucumbers'') =
     ([PanicRecovered (ArityMismatch ''g'' 1 2)], None) \<and>
   runSteps ParseFloat (ctx_only_suite :: unit Suite)
       [given_step ''I have 42 cucumbers'', given_step ''I have 7 cucumbers''] =
     ([PanicRecovered (ArityMismatch ''g'' 1 2), PanicRecovered (ArityMismatch ''g'' 1 2)], None)"
  using arity_eval arity_eval2 by blast

text \<open>
  C8. \<^verbatim>\<open>paramType\<close> by the type of the parameter. For a \<^verbatim>\<open>float64\<close> parameter the bytes
  are parsed by \<^verbatim>\<open>ParseFloat\<close> with the bit size 32, as for a \<^verbatim>\<open>float32\<close> one; so for
  the bytes \<open>0.1\<close> the function receives the float32 nearest to 0.1, widened. Strings,
  ints and the other types are as claimed.
\<close>

theorem paramType_float64_parsed_with_bit_size_32:
  "paramType ParseFloat ''0.1'' TFloat64 = VFloat64 (fst (ParseFloat ''0.1'' 32)) \<and>
   paramType ParseFloat param TFloat64 = VFloat64 (fst (ParseFloat param 32)) \<and>
   paramType ParseFloat param TFloat32 = VFloat32 (fst (ParseFloat param 32)) \<and>
   paramType ParseFloat param TString = VString param \<and>
   paramType ParseFloat param TInt = VInt (fst (Atoi param)) \<and>
   paramType ParseFloat param TBytes = VBytes param \<and>
   paramType ParseFloat param TBool = VBytes param \<and>
   paramType ParseFloat param TContext = VBytes param"
  by (simp add: paramType_def)


end
